theory Spec2Isabelle
  imports Main "HOL-Library.AList" "HOL-Library.Product_Lexorder"
begin

section \<open>Representation\<close>

text \<open>
  A Python \<open>dict\<close> is an association list in insertion order: \<open>map_of\<close> is the lookup
  and \<open>AList.update\<close> is the assignment \<open>d[k] = v\<close> (in place for a present key,
  appended for a new one). The stores of \<open>data_store.py\<close> keep every object under its
  own id. Clock readings (\<open>datetime.now()\<close>) are natural numbers handed to each
  operation, and so are the identifiers that the constructors derive from the clock
  (\<open>TKN...\<close>, \<open>PAT...\<close>): the operation receives the identifier that was drawn.
\<close>

type_synonym ('k, 'v) dict = "('k \<times> 'v) list"
type_synonym timestamp = nat

section \<open>config.py\<close>

definition PRIORITY_LEVELS :: "(string, int) dict" where
  "PRIORITY_LEVELS =
     [(''EMERGENCY'', 1), (''PAID_PRIORITY'', 2), (''FOLLOW_UP'', 3),
      (''ONLINE_BOOKING'', 4), (''WALK_IN'', 5)]"

definition TOKEN_SOURCES :: "string list" where
  "TOKEN_SOURCES = [''EMERGENCY'', ''PAID_PRIORITY'', ''FOLLOW_UP'', ''ONLINE_BOOKING'', ''WALK_IN'']"

definition AVERAGE_CONSULTATION_MINUTES :: int where
  "AVERAGE_CONSULTATION_MINUTES = 5"

section \<open>Errors\<close>

text \<open>
  Every failure of the services is a Python \<open>ValueError\<close>; the constructors name the
  message: \<open>Invalid source type\<close>, \<open>Doctor not found\<close>, \<open>Time slot not found\<close> and
  \<open>Slot not found\<close>, \<open>Token not found\<close>, the status refusals of the reallocation
  service (\<open>Cannot cancel token with status\<close>, \<open>Only confirmed tokens can be ...\<close>), the
  \<open>ValueError\<close> of \<open>calculate_estimated_time\<close> on a start time that is not \<open>HH:MM\<close>,
  and the \<open>ValueError\<close> of \<open>max\<close> on an empty sequence. \<open>NoneToken\<close> is the
  \<open>AttributeError\<close> of reading \<open>priority\<close> of \<open>None\<close>.
\<close>

datatype error =
    InvalidSource
  | DoctorNotFound
  | SlotNotFound
  | TokenNotFound
  | InvalidTransition
  | BadStartTime
  | MaxOfEmpty
  | NoneToken

section \<open>models/token.py\<close>

text \<open>
  A token's \<open>status\<close> is a Python string; the services assign only the five of
  \<open>Config.TOKEN_STATUS\<close>.
\<close>

datatype token_status = CONFIRMED | WAITLISTED | CANCELLED | NO_SHOW | COMPLETED

fun status_name :: "token_status \<Rightarrow> string" where
  "status_name CONFIRMED = ''CONFIRMED''"
| "status_name WAITLISTED = ''WAITLISTED''"
| "status_name CANCELLED = ''CANCELLED''"
| "status_name NO_SHOW = ''NO_SHOW''"
| "status_name COMPLETED = ''COMPLETED''"

record token =
  token_id :: string
  token_number :: "int option"
  patient_id :: string
  doctor_id :: string
  slot_id :: string
  source :: string
  priority :: int
  status :: token_status
  estimated_time :: "string option"
  created_at :: timestamp
  updated_at :: timestamp
  token_notes :: "(timestamp \<times> string) list"

definition Token_init ::
  "string \<Rightarrow> timestamp \<Rightarrow> string \<Rightarrow> string \<Rightarrow> string \<Rightarrow> string \<Rightarrow> int \<Rightarrow> token_status
     \<Rightarrow> int option \<Rightarrow> token" where
  "Token_init tid now pat doc slot src prio st num =
     \<lparr>token_id = tid, token_number = num, patient_id = pat, doctor_id = doc, slot_id = slot,
      source = src, priority = prio, status = st, estimated_time = None,
      created_at = now, updated_at = now, token_notes = []\<rparr>"

definition add_note :: "timestamp \<Rightarrow> string \<Rightarrow> token \<Rightarrow> token" where
  "add_note now note t = t\<lparr>token_notes := token_notes t @ [(now, note)]\<rparr>"

definition update_status :: "timestamp \<Rightarrow> token_status \<Rightarrow> string \<Rightarrow> token \<Rightarrow> token" where
  "update_status now new_status note t =
     (let old_status = status t;
          event_note = (if note \<noteq> [] then note
                        else ''Status changed: '' @ status_name old_status @ '' -> ''
                             @ status_name new_status)
      in add_note now event_note (t\<lparr>status := new_status, updated_at := now\<rparr>))"

subsection \<open>Start times: \<open>map(int, slot_start_time.split(':'))\<close> and \<open>strftime('%H:%M')\<close>\<close>

fun split_colon :: "string \<Rightarrow> string list" where
  "split_colon [] = [[]]"
| "split_colon (c # cs) =
     (if c = CHR '':'' then [] # split_colon cs
      else (c # hd (split_colon cs)) # tl (split_colon cs))"

definition is_digit :: "char \<Rightarrow> bool" where
  "is_digit c = (48 \<le> (of_char c :: nat) \<and> (of_char c :: nat) \<le> 57)"

text \<open>
  \<open>int(s)\<close> as CPython (3.11 and later) computes it, on a string whose characters have
  code points below 256 (a \<open>char\<close> here is one such character). Blanks are dropped at
  both ends: tab, line feed, vertical tab, form feed, carriage return, space, and the two
  blanks above 127, the code points 133 and 160. Then comes an optional sign, and then decimal digits
  in groups that single underscores may separate. More than 4300 digits are refused
  (\<open>sys.int_info.default_max_str_digits\<close>). Everything else is a \<open>ValueError\<close>.
\<close>

definition is_space :: "char \<Rightarrow> bool" where
  "is_space c = ((of_char c :: nat) \<in> {9, 10, 11, 12, 13, 32, 133, 160})"

definition strip_blanks :: "string \<Rightarrow> string" where
  "strip_blanks s = rev (dropWhile is_space (rev (dropWhile is_space s)))"

fun digit_groups :: "string \<Rightarrow> bool" where
  "digit_groups [] = False"
| "digit_groups [c] = is_digit c"
| "digit_groups (c # d # cs) =
     (is_digit c \<and> (if d = CHR ''_'' then digit_groups cs else digit_groups (d # cs)))"

definition MAX_STR_DIGITS :: nat where
  "MAX_STR_DIGITS = 4300"

definition int_of_string :: "string \<Rightarrow> int option" where
  "int_of_string s =
     (let t = strip_blanks s;
          signed = (t \<noteq> [] \<and> (hd t = CHR ''-'' \<or> hd t = CHR ''+''));
          negative = (t \<noteq> [] \<and> hd t = CHR ''-'');
          body = (if signed then tl t else t);
          digits = filter is_digit body
      in if digit_groups body \<and> length digits \<le> MAX_STR_DIGITS
         then Some ((if negative then - 1 else 1)
                    * foldl (\<lambda>acc c. 10 * acc + (int (of_char c) - 48)) 0 digits)
         else None)"

text \<open>
  The unpacking \<open>hour, minute = ...\<close> needs exactly two parts, and
  \<open>datetime.replace(hour=..., minute=...)\<close> needs them in range.
\<close>

definition parse_start_time :: "string \<Rightarrow> (int \<times> int) option" where
  "parse_start_time s =
     (case split_colon s of
        [a, b] \<Rightarrow>
          (case (int_of_string a, int_of_string b) of
             (Some h, Some m) \<Rightarrow>
               (if 0 \<le> h \<and> h \<le> 23 \<and> 0 \<le> m \<and> m \<le> 59 then Some (h, m) else None)
           | _ \<Rightarrow> None)
      | _ \<Rightarrow> None)"

text \<open>
  \<open>base_time + timedelta(minutes=...)\<close> followed by \<open>strftime('%H:%M')\<close>: the minutes
  are added to the start time and the time of day of the sum is printed, so the result
  wraps at midnight. The date of the sum is dropped. The arithmetic is on unbounded
  integers: the \<open>OverflowError\<close> that \<open>datetime\<close> raises once the sum leaves the years 1
  to 9999, some 800 million positions away from today, is not modelled.
\<close>

definition digit_char :: "int \<Rightarrow> char" where
  "digit_char d = char_of (48 + nat d)"

definition two_digits :: "int \<Rightarrow> string" where
  "two_digits n = [digit_char (n div 10), digit_char (n mod 10)]"

definition format_minutes :: "int \<Rightarrow> string" where
  "format_minutes mins =
     two_digits ((mins div 60) mod 24) @ '':'' @ two_digits (mins mod 60)"

definition estimate :: "string \<Rightarrow> int \<Rightarrow> string option" where
  "estimate slot_start_time position_in_queue =
     (case parse_start_time slot_start_time of
        None \<Rightarrow> None
      | Some (hour, minute) \<Rightarrow>
          Some (format_minutes
                  (hour * 60 + minute
                   + (position_in_queue - 1) * AVERAGE_CONSULTATION_MINUTES)))"

definition calculate_estimated_time :: "string \<Rightarrow> int \<Rightarrow> token \<Rightarrow> error + token" where
  "calculate_estimated_time slot_start_time position_in_queue t =
     (case estimate slot_start_time position_in_queue of
        None \<Rightarrow> Inl BadStartTime
      | Some e \<Rightarrow> Inr (t\<lparr>estimated_time := Some e\<rparr>))"

section \<open>models/time\_slot.py\<close>

record time_slot =
  ts_id :: string
  ts_doctor_id :: string
  start_time :: string
  end_time :: string
  date :: string
  max_capacity :: int
  allocated_count :: int
  tokens :: "string list"
  waitlist :: "string list"
  ts_created_at :: timestamp

definition TimeSlot_init ::
  "string \<Rightarrow> timestamp \<Rightarrow> string \<Rightarrow> string \<Rightarrow> string \<Rightarrow> string \<Rightarrow> int \<Rightarrow> time_slot" where
  "TimeSlot_init sid now doc st en d cap =
     \<lparr>ts_id = sid, ts_doctor_id = doc, start_time = st, end_time = en, date = d,
      max_capacity = cap, allocated_count = 0, tokens = [], waitlist = [],
      ts_created_at = now\<rparr>"


definition is_full :: "time_slot \<Rightarrow> bool" where
  "is_full s = (allocated_count s \<ge> max_capacity s)"

text \<open>Each method returns the slot after the call and the boolean it returns.\<close>

definition add_token :: "string \<Rightarrow> time_slot \<Rightarrow> time_slot \<times> bool" where
  "add_token tid s =
     (if allocated_count s < max_capacity s
      then (s\<lparr>tokens := tokens s @ [tid], allocated_count := allocated_count s + 1\<rparr>, True)
      else (s, False))"

definition remove_token :: "string \<Rightarrow> time_slot \<Rightarrow> time_slot \<times> bool" where
  "remove_token tid s =
     (if tid \<in> set (tokens s)
      then (s\<lparr>tokens := remove1 tid (tokens s), allocated_count := allocated_count s - 1\<rparr>, True)
      else (s, False))"

definition TimeSlot_add_to_waitlist :: "string \<Rightarrow> time_slot \<Rightarrow> time_slot \<times> bool" where
  "TimeSlot_add_to_waitlist tid s =
     (if tid \<notin> set (waitlist s) then (s\<lparr>waitlist := waitlist s @ [tid]\<rparr>, True)
      else (s, False))"

definition TimeSlot_remove_from_waitlist :: "string \<Rightarrow> time_slot \<Rightarrow> time_slot \<times> bool" where
  "TimeSlot_remove_from_waitlist tid s =
     (if tid \<in> set (waitlist s) then (s\<lparr>waitlist := remove1 tid (waitlist s)\<rparr>, True)
      else (s, False))"

section \<open>models/patient.py, models/doctor.py\<close>

record patient =
  p_id :: string
  name :: string
  phone :: string
  age :: int
  gender :: string
  medical_record_number :: string
  p_created_at :: timestamp

record patient_data =
  pd_name :: string
  pd_phone :: string
  pd_age :: int
  pd_gender :: string

definition Patient_init :: "string \<Rightarrow> timestamp \<Rightarrow> patient_data \<Rightarrow> patient" where
  "Patient_init pid now pd =
     \<lparr>p_id = pid, name = pd_name pd, phone = pd_phone pd, age = pd_age pd,
      gender = pd_gender pd, medical_record_number = ''MRN'' @ pid, p_created_at = now\<rparr>"

text \<open>
  A doctor's \<open>slots\<close> list holds the very slot objects of the store; no service reads
  it, and it is left out.
\<close>

record doctor =
  d_id :: string
  d_name :: string
  specialization :: string
  active :: bool

section \<open>core/priority\_manager.py\<close>

definition get_priority_for_source :: "string \<Rightarrow> int" where
  "get_priority_for_source src =
     (case map_of PRIORITY_LEVELS src of Some p \<Rightarrow> p | None \<Rightarrow> 999)"

definition should_demote :: "int \<Rightarrow> int \<Rightarrow> bool" where
  "should_demote existing_priority new_priority = (new_priority < existing_priority)"

definition validate_source :: "string \<Rightarrow> bool" where
  "validate_source src = (src \<in> set TOKEN_SOURCES)"

section \<open>core/queue\_manager.py\<close>

record waitlist_entry =
  e_token_id :: string
  e_priority :: int
  e_timestamp :: timestamp

record queue_manager =
  waitlists :: "(string, waitlist_entry list) dict"

definition QueueManager_init :: queue_manager where
  "QueueManager_init = \<lparr>waitlists = []\<rparr>"

definition entry_key :: "waitlist_entry \<Rightarrow> int \<times> timestamp" where
  "entry_key x = (e_priority x, e_timestamp x)"

text \<open>\<open>list.sort(key=...)\<close> is stable, as \<open>sort_key\<close> is.\<close>

definition sort_waitlist :: "string \<Rightarrow> queue_manager \<Rightarrow> queue_manager" where
  "sort_waitlist sid qm =
     (case map_of (waitlists qm) sid of
        None \<Rightarrow> qm
      | Some l \<Rightarrow> qm\<lparr>waitlists := AList.update sid (sort_key entry_key l) (waitlists qm)\<rparr>)"

fun first_index :: "string \<Rightarrow> waitlist_entry list \<Rightarrow> nat option" where
  "first_index tid [] = None"
| "first_index tid (x # xs) =
     (if e_token_id x = tid then Some 0 else map_option Suc (first_index tid xs))"

definition waitlist_of :: "queue_manager \<Rightarrow> string \<Rightarrow> waitlist_entry list" where
  "waitlist_of qm sid = (case map_of (waitlists qm) sid of None \<Rightarrow> [] | Some l \<Rightarrow> l)"

definition QueueManager_add_to_waitlist ::
  "timestamp \<Rightarrow> string \<Rightarrow> string \<Rightarrow> int \<Rightarrow> queue_manager \<Rightarrow> queue_manager \<times> int" where
  "QueueManager_add_to_waitlist now sid tid prio qm =
     (let qm1 = (if map_of (waitlists qm) sid = None
                 then qm\<lparr>waitlists := AList.update sid [] (waitlists qm)\<rparr> else qm);
          entry = \<lparr>e_token_id = tid, e_priority = prio, e_timestamp = now\<rparr>;
          qm2 = qm1\<lparr>waitlists := AList.update sid (waitlist_of qm1 sid @ [entry]) (waitlists qm1)\<rparr>;
          qm3 = sort_waitlist sid qm2
      in (qm3, (case first_index tid (waitlist_of qm3 sid) of
                  Some idx \<Rightarrow> int idx + 1
                | None \<Rightarrow> int (length (waitlist_of qm3 sid)))))"

definition QueueManager_remove_from_waitlist ::
  "string \<Rightarrow> string \<Rightarrow> queue_manager \<Rightarrow> queue_manager \<times> bool" where
  "QueueManager_remove_from_waitlist sid tid qm =
     (case map_of (waitlists qm) sid of
        None \<Rightarrow> (qm, False)
      | Some l \<Rightarrow>
          (qm\<lparr>waitlists := AList.update sid (filter (\<lambda>item. e_token_id item \<noteq> tid) l)
                             (waitlists qm)\<rparr>, True))"

definition get_next_from_waitlist :: "string \<Rightarrow> queue_manager \<Rightarrow> string option" where
  "get_next_from_waitlist sid qm =
     (case map_of (waitlists qm) sid of
        None \<Rightarrow> None
      | Some [] \<Rightarrow> None
      | Some (next_entry # _) \<Rightarrow> Some (e_token_id next_entry))"

definition get_waitlist_position :: "string \<Rightarrow> string \<Rightarrow> queue_manager \<Rightarrow> int option" where
  "get_waitlist_position sid tid qm =
     (case map_of (waitlists qm) sid of
        None \<Rightarrow> None
      | Some l \<Rightarrow> map_option (\<lambda>idx. int idx + 1) (first_index tid l))"

definition get_waitlist_size :: "string \<Rightarrow> queue_manager \<Rightarrow> int" where
  "get_waitlist_size sid qm =
     (case map_of (waitlists qm) sid of None \<Rightarrow> 0 | Some l \<Rightarrow> int (length l))"

section \<open>utils/data\_store.py\<close>

record data_store =
  doctors :: "(string, doctor) dict"
  time_slots :: "(string, time_slot) dict"
  db_tokens :: "(string, token) dict"
  patients :: "(string, patient) dict"

definition DataStore_init :: data_store where
  "DataStore_init = \<lparr>doctors = [], time_slots = [], db_tokens = [], patients = []\<rparr>"

definition add_doctor :: "doctor \<Rightarrow> data_store \<Rightarrow> data_store" where
  "add_doctor d db = db\<lparr>doctors := AList.update (d_id d) d (doctors db)\<rparr>"

definition get_doctor :: "data_store \<Rightarrow> string \<Rightarrow> doctor option" where
  "get_doctor db did = map_of (doctors db) did"

definition add_time_slot :: "time_slot \<Rightarrow> data_store \<Rightarrow> data_store" where
  "add_time_slot s db = db\<lparr>time_slots := AList.update (ts_id s) s (time_slots db)\<rparr>"

definition get_time_slot :: "data_store \<Rightarrow> string \<Rightarrow> time_slot option" where
  "get_time_slot db sid = map_of (time_slots db) sid"

definition find_slot_by_time :: "data_store \<Rightarrow> string \<Rightarrow> string \<Rightarrow> string \<Rightarrow> time_slot option" where
  "find_slot_by_time db did d st =
     find (\<lambda>slot. ts_doctor_id slot = did \<and> date slot = d \<and> start_time slot = st)
          (map snd (time_slots db))"

definition DataStore_add_token :: "token \<Rightarrow> data_store \<Rightarrow> data_store" where
  "DataStore_add_token t db = db\<lparr>db_tokens := AList.update (token_id t) t (db_tokens db)\<rparr>"

definition get_token :: "data_store \<Rightarrow> string \<Rightarrow> token option" where
  "get_token db tid = map_of (db_tokens db) tid"

definition add_patient :: "patient \<Rightarrow> data_store \<Rightarrow> data_store" where
  "add_patient p db = db\<lparr>patients := AList.update (p_id p) p (patients db)\<rparr>"

definition get_patient :: "data_store \<Rightarrow> string \<Rightarrow> patient option" where
  "get_patient db pid = map_of (patients db) pid"

definition find_patient_by_phone :: "data_store \<Rightarrow> string \<Rightarrow> patient option" where
  "find_patient_by_phone db ph = find (\<lambda>p. phone p = ph) (map snd (patients db))"

text \<open>
  The services mutate the slot and token objects they have looked up. In the model the
  mutated object is written back: under the key of the lookup for \<open>get_time_slot\<close> and
  \<open>get_token\<close>, under the slot's own id for \<open>find_slot_by_time\<close>.
\<close>

definition store_slot :: "string \<Rightarrow> time_slot \<Rightarrow> data_store \<Rightarrow> data_store" where
  "store_slot k s db = db\<lparr>time_slots := AList.update k s (time_slots db)\<rparr>"

definition store_token :: "string \<Rightarrow> token \<Rightarrow> data_store \<Rightarrow> data_store" where
  "store_token k t db = db\<lparr>db_tokens := AList.update k t (db_tokens db)\<rparr>"

section \<open>services/reallocation\_service.py\<close>

text \<open>
  A service object owns one \<open>QueueManager\<close> (\<open>self.queue_manager\<close>) and works on the
  global store \<open>db\<close>: its methods take and return both. A method returns its result or
  the error it raises, together with the state it leaves behind in either case.
\<close>

type_synonym service_state = "queue_manager \<times> data_store"

datatype realloc_result =
    Cancelled string "string option"
  | WaitlistedCancelled string
  | MarkedNoShow string "string option"
  | Demoted string int
  | Completed string
  | NothingDone string

definition promote_from_waitlist ::
  "timestamp \<Rightarrow> string \<Rightarrow> service_state \<Rightarrow> (error + string option) \<times> service_state" where
  "promote_from_waitlist now sid st =
     (case st of (qm, db) \<Rightarrow>
      (case get_next_from_waitlist sid qm of
         None \<Rightarrow> (Inr None, qm, db)
       | Some next_token_id \<Rightarrow>
           if next_token_id = [] then (Inr None, qm, db)
           else
             (case (get_token db next_token_id, get_time_slot db sid) of
                (Some tok, Some slot) \<Rightarrow>
                  (let slot1 = fst (TimeSlot_remove_from_waitlist (token_id tok) slot);
                       qm1 = fst (QueueManager_remove_from_waitlist sid (token_id tok) qm);
                       slot2 = fst (add_token (token_id tok) slot1);
                       db1 = store_slot sid slot2 db;
                       tok1 = tok\<lparr>token_number := Some (allocated_count slot2)\<rparr>
                   in (case calculate_estimated_time (start_time slot2) (allocated_count slot2) tok1 of
                         Inl e \<Rightarrow> (Inl e, qm1, store_token next_token_id tok1 db1)
                       | Inr tok2 \<Rightarrow>
                           (Inr (Some (token_id tok)), qm1,
                            store_token next_token_id
                              (update_status now CONFIRMED ''Promoted from waitlist'' tok2) db1)))
              | _ \<Rightarrow> (Inr None, qm, db))))"

text \<open>The callers test \<open>if promoted_token_id:\<close>, which an empty id fails.\<close>

definition truthy_id :: "string option \<Rightarrow> string option" where
  "truthy_id r = (case r of Some p \<Rightarrow> (if p \<noteq> [] then Some p else None) | None \<Rightarrow> None)"

definition cancel_token ::
  "timestamp \<Rightarrow> string \<Rightarrow> service_state \<Rightarrow> (error + realloc_result) \<times> service_state" where
  "cancel_token now tid st =
     (case st of (qm, db) \<Rightarrow>
      (case get_token db tid of
         None \<Rightarrow> (Inl TokenNotFound, qm, db)
       | Some tok \<Rightarrow>
           if status tok \<in> {CANCELLED, COMPLETED, NO_SHOW} then (Inl InvalidTransition, qm, db)
           else
             (case get_time_slot db (slot_id tok) of
                None \<Rightarrow> (Inl SlotNotFound, qm, db)
              | Some slot \<Rightarrow>
                  if status tok = CONFIRMED then
                    (let db1 = store_slot (slot_id tok) (fst (remove_token tid slot)) db;
                         db2 = store_token tid
                                 (update_status now CANCELLED ''Token cancelled by patient/admin'' tok) db1
                     in (case promote_from_waitlist now (ts_id slot) (qm, db2) of
                           (Inl e, st') \<Rightarrow> (Inl e, st')
                         | (Inr promoted, st') \<Rightarrow> (Inr (Cancelled tid (truthy_id promoted)), st')))
                  else if status tok = WAITLISTED then
                    (let db1 = store_slot (slot_id tok)
                                 (fst (TimeSlot_remove_from_waitlist tid slot)) db;
                         qm1 = fst (QueueManager_remove_from_waitlist (ts_id slot) tid qm);
                         db2 = store_token tid
                                 (update_status now CANCELLED ''Waitlisted token cancelled'' tok) db1
                     in (Inr (WaitlistedCancelled tid), qm1, db2))
                  else (Inr (NothingDone tid), qm, db))))"

definition mark_no_show ::
  "timestamp \<Rightarrow> string \<Rightarrow> service_state \<Rightarrow> (error + realloc_result) \<times> service_state" where
  "mark_no_show now tid st =
     (case st of (qm, db) \<Rightarrow>
      (case get_token db tid of
         None \<Rightarrow> (Inl TokenNotFound, qm, db)
       | Some tok \<Rightarrow>
           if status tok \<noteq> CONFIRMED then (Inl InvalidTransition, qm, db)
           else
             (case get_time_slot db (slot_id tok) of
                None \<Rightarrow> (Inl SlotNotFound, qm, db)
              | Some slot \<Rightarrow>
                  (let db1 = store_slot (slot_id tok) (fst (remove_token tid slot)) db;
                       db2 = store_token tid
                               (update_status now NO_SHOW ''Patient did not arrive'' tok) db1
                   in (case promote_from_waitlist now (ts_id slot) (qm, db2) of
                         (Inl e, st') \<Rightarrow> (Inl e, st')
                       | (Inr promoted, st') \<Rightarrow>
                           (Inr (MarkedNoShow tid (truthy_id promoted)), st'))))))"

definition demote_token ::
  "timestamp \<Rightarrow> string \<Rightarrow> service_state \<Rightarrow> (error + realloc_result) \<times> service_state" where
  "demote_token now tid st =
     (case st of (qm, db) \<Rightarrow>
      (case get_token db tid of
         None \<Rightarrow> (Inl TokenNotFound, qm, db)
       | Some tok \<Rightarrow>
           if status tok \<noteq> CONFIRMED then (Inl InvalidTransition, qm, db)
           else
             (case get_time_slot db (slot_id tok) of
                None \<Rightarrow> (Inl SlotNotFound, qm, db)
              | Some slot \<Rightarrow>
                  (let slot1 = fst (remove_token tid slot);
                       slot2 = fst (TimeSlot_add_to_waitlist tid slot1);
                       db1 = store_slot (slot_id tok) slot2 db;
                       (qm1, position) =
                          QueueManager_add_to_waitlist now (ts_id slot) tid (priority tok) qm;
                       tok1 = update_status now WAITLISTED
                                ''Demoted to accommodate higher priority token'' tok;
                       tok2 = tok1\<lparr>token_number := None, estimated_time := None\<rparr>
                   in (Inr (Demoted tid position), qm1, store_token tid tok2 db1)))))"

definition complete_token ::
  "timestamp \<Rightarrow> string \<Rightarrow> service_state \<Rightarrow> (error + realloc_result) \<times> service_state" where
  "complete_token now tid st =
     (case st of (qm, db) \<Rightarrow>
      (case get_token db tid of
         None \<Rightarrow> (Inl TokenNotFound, qm, db)
       | Some tok \<Rightarrow>
           if status tok \<noteq> CONFIRMED then (Inl InvalidTransition, qm, db)
           else (Inr (Completed tid), qm,
                 store_token tid (update_status now COMPLETED ''Consultation completed'' tok) db)))"

section \<open>services/allocation\_service.py\<close>

text \<open>
  What one allocation call draws from its environment: the id of the token it
  constructs, the id of the patient it constructs when the phone number is new, and the
  clock.
\<close>

record env =
  new_token_id :: string
  new_patient_id :: string
  now :: timestamp

datatype alloc_message =
    MSG_CONFIRMED
  | MSG_WAITLISTED int
  | MSG_EMERGENCY_CONFIRMED
  | MSG_EMERGENCY_CONFIRMED_DEMOTED string
  | MSG_EMERGENCY_WAITLISTED int

definition create_confirmed_token ::
  "env \<Rightarrow> string \<Rightarrow> string \<Rightarrow> time_slot \<Rightarrow> string \<Rightarrow> int \<Rightarrow> error + token" where
  "create_confirmed_token ev pat did slot src prio =
     (let number = allocated_count slot + 1;
          tok = Token_init (new_token_id ev) (now ev) pat did (ts_id slot) src prio
                  CONFIRMED (Some number)
      in (case calculate_estimated_time (start_time slot) number tok of
            Inl e \<Rightarrow> Inl e
          | Inr tok1 \<Rightarrow> Inr (add_note (now ev) (''Token allocated from '' @ src) tok1)))"

definition create_waitlisted_token ::
  "env \<Rightarrow> string \<Rightarrow> string \<Rightarrow> time_slot \<Rightarrow> string \<Rightarrow> int \<Rightarrow> token" where
  "create_waitlisted_token ev pat did slot src prio =
     add_note (now ev) (''Added to waitlist from '' @ src)
       (Token_init (new_token_id ev) (now ev) pat did (ts_id slot) src prio WAITLISTED None)"

text \<open>The block \<open># Get or create patient\<close> of both allocation methods.\<close>

definition get_or_create_patient :: "env \<Rightarrow> patient_data \<Rightarrow> data_store \<Rightarrow> patient \<times> data_store" where
  "get_or_create_patient ev pd db =
     (case find_patient_by_phone db (pd_phone pd) of
        Some p \<Rightarrow> (p, db)
      | None \<Rightarrow>
          (let p = Patient_init (new_patient_id ev) (now ev) pd in (p, add_patient p db)))"

text \<open>The two endings shared by both methods: confirm into the slot, or waitlist.\<close>

definition confirm_into ::
  "env \<Rightarrow> string \<Rightarrow> string \<Rightarrow> time_slot \<Rightarrow> string \<Rightarrow> int \<Rightarrow> alloc_message
     \<Rightarrow> service_state \<Rightarrow> (error + token \<times> alloc_message) \<times> service_state" where
  "confirm_into ev pat did slot src prio msg st =
     (case st of (qm, db) \<Rightarrow>
      (case create_confirmed_token ev pat did slot src prio of
         Inl e \<Rightarrow> (Inl e, qm, db)
       | Inr tok \<Rightarrow>
           (let db1 = store_slot (ts_id slot) (fst (add_token (token_id tok) slot)) db;
                db2 = DataStore_add_token tok db1
            in (Inr (tok, msg), qm, db2))))"

definition waitlist_into ::
  "env \<Rightarrow> string \<Rightarrow> string \<Rightarrow> time_slot \<Rightarrow> string \<Rightarrow> int \<Rightarrow> (int \<Rightarrow> alloc_message)
     \<Rightarrow> service_state \<Rightarrow> (error + token \<times> alloc_message) \<times> service_state" where
  "waitlist_into ev pat did slot src prio msg st =
     (case st of (qm, db) \<Rightarrow>
      (let tok = create_waitlisted_token ev pat did slot src prio;
           db1 = store_slot (ts_id slot) (fst (TimeSlot_add_to_waitlist (token_id tok) slot)) db;
           db2 = DataStore_add_token tok db1;
           (qm1, position) =
              QueueManager_add_to_waitlist (now ev) (ts_id slot) (token_id tok) prio qm
       in (Inr (tok, msg position), qm1, db2)))"

definition allocate_token ::
  "env \<Rightarrow> patient_data \<Rightarrow> string \<Rightarrow> string \<Rightarrow> string \<Rightarrow> string
     \<Rightarrow> service_state \<Rightarrow> (error + token \<times> alloc_message) \<times> service_state" where
  "allocate_token ev pd did d preferred_slot_time src st =
     (case st of (qm, db) \<Rightarrow>
      if \<not> validate_source src then (Inl InvalidSource, qm, db)
      else
        (case get_doctor db did of
           None \<Rightarrow> (Inl DoctorNotFound, qm, db)
         | Some doc \<Rightarrow>
             (case get_or_create_patient ev pd db of (pat, db1) \<Rightarrow>
              (case find_slot_by_time db1 did d preferred_slot_time of
                 None \<Rightarrow> (Inl SlotNotFound, qm, db1)
               | Some slot \<Rightarrow>
                   (let prio = get_priority_for_source src
                    in if \<not> is_full slot
                       then confirm_into ev (p_id pat) did slot src prio MSG_CONFIRMED (qm, db1)
                       else waitlist_into ev (p_id pat) did slot src prio MSG_WAITLISTED
                              (qm, db1))))))"

text \<open>
  \<open>max(confirmed_tokens, key=lambda t: t.priority)\<close>: the first token of greatest
  priority number; \<open>ValueError\<close> on an empty list, \<open>AttributeError\<close> when an id of the
  slot has no token in the store.
\<close>

definition max_by_priority :: "token option list \<Rightarrow> error + token" where
  "max_by_priority ts =
     (if ts = [] then Inl MaxOfEmpty
      else if None \<in> set ts then Inl NoneToken
      else Inr (foldl (\<lambda>best t. if priority t > priority best then t else best)
                  (the (hd ts)) (map the (tl ts))))"

text \<open>
  When the slot is full, \<open>allocate_emergency_token\<close> builds a new
  \<open>ReallocationService()\<close>, whose queue manager is new and empty, calls its
  \<open>demote_token\<close> and drops the object. It then goes on with the slot object it found,
  which the demotion has mutated: the model reads the slot again under its id.
\<close>

definition emergency_demote ::
  "timestamp \<Rightarrow> string \<Rightarrow> data_store \<Rightarrow> (error + realloc_result) \<times> service_state" where
  "emergency_demote t tid db = demote_token t tid (QueueManager_init, db)"

definition allocate_emergency_token ::
  "env \<Rightarrow> patient_data \<Rightarrow> string \<Rightarrow> string \<Rightarrow> string
     \<Rightarrow> service_state \<Rightarrow> (error + token \<times> alloc_message) \<times> service_state" where
  "allocate_emergency_token ev pd did d preferred_slot_time st =
     (case st of (qm, db) \<Rightarrow>
      (case get_or_create_patient ev pd db of (pat, db1) \<Rightarrow>
       (case find_slot_by_time db1 did d preferred_slot_time of
          None \<Rightarrow> (Inl SlotNotFound, qm, db1)
        | Some slot \<Rightarrow>
            (let emergency_priority = get_priority_for_source ''EMERGENCY''
             in if \<not> is_full slot
                then confirm_into ev (p_id pat) did slot ''EMERGENCY'' emergency_priority
                       MSG_EMERGENCY_CONFIRMED (qm, db1)
                else
                  (case max_by_priority (map (get_token db1) (tokens slot)) of
                     Inl e \<Rightarrow> (Inl e, qm, db1)
                   | Inr lowest \<Rightarrow>
                       if should_demote (priority lowest) emergency_priority
                       then
                         (case emergency_demote (now ev) (token_id lowest) db1 of
                            (Inl e, _, db2) \<Rightarrow> (Inl e, qm, db2)
                          | (Inr _, _, db2) \<Rightarrow>
                              (let slot1 = (case get_time_slot db2 (ts_id slot) of
                                              Some s \<Rightarrow> s | None \<Rightarrow> slot)
                               in confirm_into ev (p_id pat) did slot1 ''EMERGENCY''
                                    emergency_priority
                                    (MSG_EMERGENCY_CONFIRMED_DEMOTED (token_id lowest))
                                    (qm, db2)))
                       else waitlist_into ev (p_id pat) did slot ''EMERGENCY'' emergency_priority
                              MSG_EMERGENCY_WAITLISTED (qm, db1))))))"

section \<open>api/routes.py: the two service objects\<close>

text \<open>
  \<open>routes.py\<close> creates one \<open>AllocationService()\<close> and one \<open>ReallocationService()\<close>.
  Each constructor creates its own \<open>QueueManager()\<close>; both services share the store.
\<close>

record engine =
  allocation_queue :: queue_manager
  reallocation_queue :: queue_manager
  db :: data_store

definition engine_init :: "data_store \<Rightarrow> engine" where
  "engine_init d =
     \<lparr>allocation_queue = QueueManager_init, reallocation_queue = QueueManager_init, db = d\<rparr>"

definition by_allocation_service ::
  "(service_state \<Rightarrow> 'r \<times> service_state) \<Rightarrow> engine \<Rightarrow> 'r \<times> engine" where
  "by_allocation_service f e =
     (case f (allocation_queue e, db e) of
        (r, qm, d) \<Rightarrow> (r, e\<lparr>allocation_queue := qm, db := d\<rparr>))"

definition by_reallocation_service ::
  "(service_state \<Rightarrow> 'r \<times> service_state) \<Rightarrow> engine \<Rightarrow> 'r \<times> engine" where
  "by_reallocation_service f e =
     (case f (reallocation_queue e, db e) of
        (r, qm, d) \<Rightarrow> (r, e\<lparr>reallocation_queue := qm, db := d\<rparr>))"

section \<open>Properties as predicates, and runs of operations\<close>

text \<open>
  The order of a waitlist: lower priority number first, and among equal priority
  numbers the earlier timestamp first.
\<close>

definition entry_le :: "waitlist_entry \<Rightarrow> waitlist_entry \<Rightarrow> bool" where
  "entry_le x y =
     (e_priority x < e_priority y
      \<or> (e_priority x = e_priority y \<and> e_timestamp x \<le> e_timestamp y))"

definition waitlist_sorted :: "waitlist_entry list \<Rightarrow> bool" where
  "waitlist_sorted l = sorted_wrt entry_le l"

datatype queue_op =
    Enqueue timestamp string string int
  | Remove string string

fun apply_queue_op :: "queue_op \<Rightarrow> queue_manager \<Rightarrow> queue_manager" where
  "apply_queue_op (Enqueue t sid tid prio) qm =
     fst (QueueManager_add_to_waitlist t sid tid prio qm)"
| "apply_queue_op (Remove sid tid) qm = fst (QueueManager_remove_from_waitlist sid tid qm)"

definition run_queue_ops :: "queue_op list \<Rightarrow> queue_manager \<Rightarrow> queue_manager" where
  "run_queue_ops ops qm = foldl (\<lambda>q op. apply_queue_op op q) qm ops"

text \<open>
  The engine operations as data, each run through the service object that
  \<open>routes.py\<close> uses for it (\<open>demote_token\<close> and \<open>_promote_from_waitlist\<close> belong to the
  reallocation service). \<open>run_op\<close> keeps the state a call leaves behind, whether the
  call returns or raises.
\<close>

datatype engine_op =
    Allocate env patient_data string string string string
  | AllocateEmergency env patient_data string string string
  | Cancel timestamp string
  | MarkNoShow timestamp string
  | Demote timestamp string
  | Complete timestamp string
  | Promote timestamp string

fun run_op :: "engine_op \<Rightarrow> engine \<Rightarrow> engine" where
  "run_op (Allocate ev pd did dt tm src) e =
     snd (by_allocation_service (allocate_token ev pd did dt tm src) e)"
| "run_op (AllocateEmergency ev pd did dt tm) e =
     snd (by_allocation_service (allocate_emergency_token ev pd did dt tm) e)"
| "run_op (Cancel t tid) e = snd (by_reallocation_service (cancel_token t tid) e)"
| "run_op (MarkNoShow t tid) e = snd (by_reallocation_service (mark_no_show t tid) e)"
| "run_op (Demote t tid) e = snd (by_reallocation_service (demote_token t tid) e)"
| "run_op (Complete t tid) e = snd (by_reallocation_service (complete_token t tid) e)"
| "run_op (Promote t sid) e = snd (by_reallocation_service (promote_from_waitlist t sid) e)"

definition run_ops :: "engine_op list \<Rightarrow> engine \<Rightarrow> engine" where
  "run_ops ops e = foldl (\<lambda>e' op. run_op op e') e ops"

text \<open>
  A slot is in order when its counter is the length of its confirmed list and that
  length does not exceed the capacity.
\<close>

definition slot_ok :: "time_slot \<Rightarrow> bool" where
  "slot_ok s =
     (allocated_count s = int (length (tokens s)) \<and> int (length (tokens s)) \<le> max_capacity s)"

definition slots_ok :: "data_store \<Rightarrow> bool" where
  "slots_ok d = list_all slot_ok (map snd (time_slots d))"

text \<open>
  The slot's own \<open>waitlist\<close> field is a list of token ids. To compare its order with the
  order of priority, each id is paired with the priority and the creation time of its
  token.
\<close>

definition slot_waitlist_ranked :: "data_store \<Rightarrow> time_slot \<Rightarrow> waitlist_entry list" where
  "slot_waitlist_ranked d s =
     concat (map (\<lambda>tid. case get_token d tid of
                           None \<Rightarrow> []
                         | Some t \<Rightarrow> [\<lparr>e_token_id = tid, e_priority = priority t,
                                       e_timestamp = created_at t\<rparr>])
               (waitlist s))"

section \<open>Scenario data\<close>

definition doctor1 :: doctor where
  "doctor1 = \<lparr>d_id = ''DOC001'', d_name = ''Dr. Rajesh Kumar'',
               specialization = ''Cardiology'', active = True\<rparr>"

definition patient_a :: patient_data where
  "patient_a = \<lparr>pd_name = ''Ramesh Singh'', pd_phone = ''9876543210'', pd_age = 45,
                 pd_gender = ''M''\<rparr>"

definition patient_b :: patient_data where
  "patient_b = \<lparr>pd_name = ''Anita Desai'', pd_phone = ''9876543211'', pd_age = 38,
                 pd_gender = ''F''\<rparr>"

definition patient_c :: patient_data where
  "patient_c = \<lparr>pd_name = ''Suresh Reddy'', pd_phone = ''9876543212'', pd_age = 52,
                 pd_gender = ''M''\<rparr>"

definition env1 :: env where
  "env1 = \<lparr>new_token_id = ''TKN1'', new_patient_id = ''PAT1'', now = 1\<rparr>"

definition env2 :: env where
  "env2 = \<lparr>new_token_id = ''TKN2'', new_patient_id = ''PAT2'', now = 2\<rparr>"

definition env3 :: env where
  "env3 = \<lparr>new_token_id = ''TKN3'', new_patient_id = ''PAT3'', now = 3\<rparr>"

definition env4 :: env where
  "env4 = \<lparr>new_token_id = ''TKN4'', new_patient_id = ''PAT4'', now = 10\<rparr>"

text \<open>One doctor with one slot 09:00-10:00 of the given capacity, both services new.\<close>

definition slot1 :: "int \<Rightarrow> time_slot" where
  "slot1 cap = TimeSlot_init ''SLOT1'' 0 ''DOC001'' ''09:00'' ''10:00'' ''2026-01-29'' cap"

definition clinic :: "int \<Rightarrow> engine" where
  "clinic cap = engine_init (add_time_slot (slot1 cap) (add_doctor doctor1 DataStore_init))"

definition walk_in :: "env \<Rightarrow> patient_data \<Rightarrow> engine \<Rightarrow> (error + token \<times> alloc_message) \<times> engine" where
  "walk_in ev pd =
     by_allocation_service (allocate_token ev pd ''DOC001'' ''2026-01-29'' ''09:00'' ''WALK_IN'')"

text \<open>Scenario C: capacity 1, token A confirmed, token B waitlisted at position 1.\<close>

definition scenario_c :: engine where
  "scenario_c = snd (walk_in env2 patient_b (snd (walk_in env1 patient_a (clinic 1))))"

text \<open>After the first walk-in on a slot of the given capacity: \<open>TKN1\<close> is confirmed.\<close>

definition one_confirmed :: "int \<Rightarrow> engine" where
  "one_confirmed cap = snd (walk_in env1 patient_a (clinic cap))"

definition token_a :: token where
  "token_a =
     \<lparr>token_id = ''TKN1'', token_number = Some 1, patient_id = ''PAT1'', doctor_id = ''DOC001'',
      slot_id = ''SLOT1'', source = ''WALK_IN'', priority = 5, status = CONFIRMED,
      estimated_time = Some ''09:00'', created_at = 1, updated_at = 1,
      token_notes = [(1, ''Token allocated from WALK_IN'')]\<rparr>"

text \<open>The same engine after \<open>TKN1\<close> has been cancelled at time 2.\<close>

definition after_cancel :: engine where
  "after_cancel = snd (by_reallocation_service (cancel_token 2 ''TKN1'') (one_confirmed 1))"

definition token_a_cancelled :: token where
  "token_a_cancelled =
     token_a\<lparr>status := CANCELLED, updated_at := 2,
             token_notes := token_notes token_a @ [(2, ''Token cancelled by patient/admin'')]\<rparr>"

text \<open>A queue manager after three arrivals and one removal on one slot.\<close>

definition demo_queue :: queue_manager where
  "demo_queue =
     run_queue_ops
       [Enqueue 1 ''SLOT1'' ''TKN1'' 5, Enqueue 2 ''SLOT1'' ''TKN2'' 2,
        Enqueue 3 ''SLOT1'' ''TKN3'' 5, Remove ''SLOT1'' ''TKN1'', Enqueue 4 ''SLOT1'' ''TKN5'' 5]
       QueueManager_init"




text \<open>What a scenario reports of a token: status, number, estimated time.\<close>

definition token_view :: "engine \<Rightarrow> string \<Rightarrow> (token_status \<times> int option \<times> string option) option" where
  "token_view e tid =
     map_option (\<lambda>t. (status t, token_number t, estimated_time t)) (get_token (db e) tid)"

definition message_of :: "(error + token \<times> alloc_message) \<Rightarrow> error + alloc_message" where
  "message_of r = map_sum id snd r"


text \<open>
  Scenario B: the slot of capacity 1 holds the walk-in token \<open>TKN1\<close>, and an emergency
  request draws the id \<open>TKN2\<close>.
\<close>

definition scenario_b :: "(error + token \<times> alloc_message) \<times> engine" where
  "scenario_b =
     by_allocation_service
       (allocate_emergency_token env2 patient_b ''DOC001'' ''2026-01-29'' ''09:00'')
       (one_confirmed 1)"

text \<open>A day on the slot of capacity 1: every kind of operation, refused ones included.\<close>

definition demo_ops :: "engine_op list" where
  "demo_ops =
     [Allocate env1 patient_a ''DOC001'' ''2026-01-29'' ''09:00'' ''WALK_IN'',
      Allocate env2 patient_b ''DOC001'' ''2026-01-29'' ''09:00'' ''ONLINE_BOOKING'',
      AllocateEmergency env3 patient_c ''DOC001'' ''2026-01-29'' ''09:00'',
      Demote 4 ''TKN3'', Promote 5 ''SLOT1'', Complete 6 ''TKN3'', MarkNoShow 7 ''TKN2'',
      Cancel 8 ''TKN1'', Cancel 9 ''TKN3'',
      Allocate env4 patient_a ''DOC001'' ''2026-01-29'' ''09:00'' ''FOLLOW_UP'']"

definition token_number_view :: "engine \<Rightarrow> string \<Rightarrow> (token_status \<times> int option) option" where
  "token_number_view e tid =
     map_option (\<lambda>t. (status t, token_number t)) (get_token (db e) tid)"

text \<open>
  Scenario C continued: with \<open>TKN1\<close> confirmed and the walk-in \<open>TKN2\<close> waiting, a
  paid-priority request arrives and is waitlisted as \<open>TKN3\<close>.
\<close>

definition two_waiting :: engine where
  "two_waiting =
     snd (by_allocation_service
            (allocate_token env3 patient_c ''DOC001'' ''2026-01-29'' ''09:00'' ''PAID_PRIORITY'')
            scenario_c)"

section \<open>Properties\<close>

subsection \<open>The store\<close>

lemma get_token_store_token:
  "get_token (store_token k t d) k' = (if k' = k then Some t else get_token d k')"
  by (simp add: get_token_def store_token_def update_conv')

lemma store_token_frame:
  "time_slots (store_token k t d) = time_slots d"
  "doctors (store_token k t d) = doctors d"
  "patients (store_token k t d) = patients d"
  by (simp_all add: store_token_def)

lemma find_update_new:
  "find P (map snd al) = None \<Longrightarrow> P v \<Longrightarrow> find P (map snd (AList.update k v al)) = Some v"
  by (induction al) (auto split: if_splits)

lemma find_patient_after_add:
  "find_patient_by_phone d (phone p) = None \<Longrightarrow>
   find_patient_by_phone (add_patient p d) (phone p) = Some p"
  by (simp add: find_patient_by_phone_def add_patient_def find_update_new)

lemma get_patient_after_add: "get_patient (add_patient p d) (p_id p) = Some p"
  by (simp add: get_patient_def add_patient_def update_conv')

lemma add_patient_frame:
  "time_slots (add_patient p d) = time_slots d"
  "db_tokens (add_patient p d) = db_tokens d"
  "doctors (add_patient p d) = doctors d"
  by (simp_all add: add_patient_def)

lemma find_slot_add_patient:
  "find_slot_by_time (add_patient p d) did dt tm = find_slot_by_time d did dt tm"
  by (simp add: find_slot_by_time_def add_patient_frame)

lemma get_or_create_patient_frame:
  "time_slots (snd (get_or_create_patient ev pd d)) = time_slots d"
  "db_tokens (snd (get_or_create_patient ev pd d)) = db_tokens d"
  "doctors (snd (get_or_create_patient ev pd d)) = doctors d"
  by (simp_all add: get_or_create_patient_def add_patient_frame Let_def split: option.splits)

lemma find_slot_get_or_create:
  "find_slot_by_time (snd (get_or_create_patient ev pd d)) did dt tm = find_slot_by_time d did dt tm"
  by (simp add: find_slot_by_time_def get_or_create_patient_frame)

lemma create_confirmed_token_ok:
  assumes "parse_start_time (start_time slot) = Some (h, m)"
  shows "\<exists>tok. create_confirmed_token ev pat did slot src prio = Inr tok
           \<and> token_id tok = new_token_id ev
           \<and> token_number tok = Some (allocated_count slot + 1)
           \<and> estimated_time tok
              = Some (format_minutes
                        (h * 60 + m + (allocated_count slot + 1 - 1) * AVERAGE_CONSULTATION_MINUTES))
           \<and> status tok = CONFIRMED \<and> source tok = src \<and> priority tok = prio
           \<and> slot_id tok = ts_id slot \<and> patient_id tok = pat \<and> doctor_id tok = did"
  using assms
  by (simp add: create_confirmed_token_def calculate_estimated_time_def estimate_def
      Token_init_def add_note_def Let_def)

lemma get_time_slot_store_slot:
  "get_time_slot (store_slot k s d) k' = (if k' = k then Some s else get_time_slot d k')"
  by (simp add: get_time_slot_def store_slot_def update_conv')

lemma store_slot_frame:
  "db_tokens (store_slot k s d) = db_tokens d"
  "doctors (store_slot k s d) = doctors d"
  "patients (store_slot k s d) = patients d"
  by (simp_all add: store_slot_def)

lemma add_token_store_frame:
  "time_slots (DataStore_add_token t d) = time_slots d"
  "doctors (DataStore_add_token t d) = doctors d"
  "patients (DataStore_add_token t d) = patients d"
  by (simp_all add: DataStore_add_token_def)

lemma get_token_add_token:
  "get_token (DataStore_add_token t d) k = (if k = token_id t then Some t else get_token d k)"
  by (simp add: get_token_def DataStore_add_token_def update_conv')

lemma get_time_slot_add_token [simp]:
  "get_time_slot (DataStore_add_token t d) k = get_time_slot d k"
  by (simp add: get_time_slot_def add_token_store_frame)

lemma get_token_store_slot [simp]:
  "get_token (store_slot k s d) k' = get_token d k'"
  by (simp add: get_token_def store_slot_frame)

lemma confirm_into_ok:
  assumes "allocated_count slot < max_capacity slot"
    and "parse_start_time (start_time slot) = Some (h, m)"
  shows "\<exists>tok d'. confirm_into ev pat did slot src prio msg (qm, d) = (Inr (tok, msg), qm, d')
           \<and> create_confirmed_token ev pat did slot src prio = Inr tok
           \<and> get_token d' (new_token_id ev) = Some tok
           \<and> (\<forall>k. k \<noteq> new_token_id ev \<longrightarrow> get_token d' k = get_token d k)
           \<and> get_time_slot d' (ts_id slot)
              = Some (slot\<lparr>tokens := tokens slot @ [new_token_id ev],
                           allocated_count := allocated_count slot + 1\<rparr>)
           \<and> (\<forall>k. k \<noteq> ts_id slot \<longrightarrow> get_time_slot d' k = get_time_slot d k)"
proof -
  from create_confirmed_token_ok [OF assms(2), of ev pat did src prio]
  obtain tok where t: "create_confirmed_token ev pat did slot src prio = Inr tok"
    "token_id tok = new_token_id ev" by blast
  show ?thesis
    using t assms(1)
    by (simp add: confirm_into_def Let_def add_token_def get_token_add_token
        get_time_slot_store_slot)
qed


subsection \<open>Priority resolution\<close>

lemma unknown_source_not_in_table:
  "src \<notin> set TOKEN_SOURCES \<Longrightarrow> map_of PRIORITY_LEVELS src = None"
  by (simp add: TOKEN_SOURCES_def PRIORITY_LEVELS_def)

text \<open>
  C8 (as stated, refuted): \<open>get_priority_for_source\<close> does not fail on an unrecognized
  source. \<open>VIP\<close> is in neither table of \<open>config.py\<close>, and the function returns the
  rank 999 for it.
\<close>

theorem C8_counterexample:
  "''VIP'' \<notin> set TOKEN_SOURCES \<and> map_of PRIORITY_LEVELS ''VIP'' = None
   \<and> get_priority_for_source ''VIP'' = 999"
  by (simp add: TOKEN_SOURCES_def PRIORITY_LEVELS_def get_priority_for_source_def)

text \<open>
  C8 (amended): for every source that is not a recognized category,
  \<open>get_priority_for_source\<close> returns the default rank 999, which is greater (less
  urgent) than every configured rank; the failure \<open>InvalidSource\<close> is raised by
  \<open>allocate_token\<close>, which validates the source before anything else and leaves the
  state as it was.
\<close>

theorem C8_unrecognized_source:
  assumes "src \<notin> set TOKEN_SOURCES"
  shows "get_priority_for_source src = 999
         \<and> (\<forall>p \<in> snd ` set PRIORITY_LEVELS. p < get_priority_for_source src)
         \<and> allocate_token ev pd did d t src st = (Inl InvalidSource, st)"
proof -
  have r: "get_priority_for_source src = 999"
    using unknown_source_not_in_table [OF assms] by (simp add: get_priority_for_source_def)
  have a: "allocate_token ev pd did d t src st = (Inl InvalidSource, st)"
    using assms by (cases st) (simp add: allocate_token_def validate_source_def)
  show ?thesis using r a by (simp add: PRIORITY_LEVELS_def)
qed

theorem C8_unrecognized_source_witness:
  "''VIP'' \<notin> set TOKEN_SOURCES
   \<and> get_priority_for_source ''VIP'' = 999
   \<and> allocate_token env1 patient_a ''DOC001'' ''2026-01-29'' ''09:00'' ''VIP''
        (QueueManager_init, db (clinic 1))
      = (Inl InvalidSource, QueueManager_init, db (clinic 1))"
proof -
  have h: "''VIP'' \<notin> set TOKEN_SOURCES" by (simp add: TOKEN_SOURCES_def)
  show ?thesis
    using h C8_unrecognized_source [OF h, of env1 patient_a "''DOC001''" "''2026-01-29''"
        "''09:00''" "(QueueManager_init, db (clinic 1))"]
    by simp
qed

subsection \<open>Emergency allocation and the doctor\<close>

text \<open>
  C7 (the code misses the lookup): \<open>allocate_emergency_token\<close> never reads the doctor.
  For the doctor id \<open>DOC999\<close>, which the store does not hold, \<open>allocate_token\<close> fails
  with \<open>DoctorNotFound\<close> and changes nothing, while \<open>allocate_emergency_token\<close> has
  created the patient and fails with \<open>SlotNotFound\<close>.
\<close>

theorem C7_emergency_skips_doctor_lookup:
  "get_doctor (db (clinic 1)) ''DOC999'' = None
   \<and> by_allocation_service
        (allocate_token env1 patient_a ''DOC999'' ''2026-01-29'' ''09:00'' ''EMERGENCY'') (clinic 1)
      = (Inl DoctorNotFound, clinic 1)
   \<and> fst (by_allocation_service
        (allocate_emergency_token env1 patient_a ''DOC999'' ''2026-01-29'' ''09:00'') (clinic 1))
      = Inl SlotNotFound
   \<and> map_option phone
        (get_patient (db (snd (by_allocation_service
           (allocate_emergency_token env1 patient_a ''DOC999'' ''2026-01-29'' ''09:00'')
           (clinic 1)))) ''PAT1'')
      = Some ''9876543210''"
  by code_simp

subsection \<open>Cancellation and promotion\<close>

text \<open>
  Promotion reads the waitlist of the queue manager it is given, and does nothing when
  that waitlist is empty, whatever the slot's own \<open>waitlist\<close> field holds.
\<close>

lemma promote_from_empty_waitlist:
  "waitlist_of qm sid = [] \<Longrightarrow> promote_from_waitlist t sid (qm, d) = (Inr None, qm, d)"
  by (simp add: promote_from_waitlist_def get_next_from_waitlist_def waitlist_of_def
      split: option.splits list.splits)

text \<open>
  C1 (the code does not promote): in scenario C the slot of capacity 1 holds the
  confirmed token \<open>TKN1\<close>, and \<open>TKN2\<close> is waitlisted at position 1 of the allocation
  service's queue. Cancelling \<open>TKN1\<close> through the reallocation service reports no
  promotion: its own queue manager has no entry for the slot. \<open>TKN2\<close> stays waitlisted
  without number or estimated time, and the confirmed list is left empty.
\<close>

theorem C1_cancel_does_not_promote:
  "map_option status (get_token (db scenario_c) ''TKN1'') = Some CONFIRMED
   \<and> map_option status (get_token (db scenario_c) ''TKN2'') = Some WAITLISTED
   \<and> get_waitlist_position ''SLOT1'' ''TKN2'' (allocation_queue scenario_c) = Some 1
   \<and> map_option tokens (get_time_slot (db scenario_c) ''SLOT1'') = Some [''TKN1'']
   \<and> fst (by_reallocation_service (cancel_token 3 ''TKN1'') scenario_c)
      = Inr (Cancelled ''TKN1'' None)
   \<and> map_option (\<lambda>t. (status t, token_number t, estimated_time t))
        (get_token (db (snd (by_reallocation_service (cancel_token 3 ''TKN1'') scenario_c)))
           ''TKN2'')
      = Some (WAITLISTED, None, None)
   \<and> map_option (\<lambda>s. (tokens s, waitlist s))
        (get_time_slot (db (snd (by_reallocation_service (cancel_token 3 ''TKN1'') scenario_c)))
           ''SLOT1'')
      = Some ([], [''TKN2''])"
  by code_simp

subsection \<open>Completion\<close>

text \<open>
  C9: for a token whose status is \<open>CONFIRMED\<close>, \<open>complete_token\<close> succeeds and the only
  object it touches is that token: its status becomes \<open>COMPLETED\<close>, and \<open>update_status\<close>
  stamps \<open>updated_at\<close> and appends the event to the token's log; its number, estimated
  time and every other field are as before. The slots of the store (confirmed lists,
  allocated counts, hence available capacity, and waitlists) are unchanged, so the
  token's id is still in its slot's confirmed list; the queue manager is unchanged and
  no promotion takes place; every other token, the doctors and the patients are
  unchanged.
\<close>

theorem C9_complete_changes_status_only:
  assumes "get_token d tid = Some tok" and "status tok = CONFIRMED"
  shows "fst (complete_token t tid (qm, d)) = Inr (Completed tid)
         \<and> fst (snd (complete_token t tid (qm, d))) = qm
         \<and> time_slots (snd (snd (complete_token t tid (qm, d)))) = time_slots d
         \<and> doctors (snd (snd (complete_token t tid (qm, d)))) = doctors d
         \<and> patients (snd (snd (complete_token t tid (qm, d)))) = patients d
         \<and> get_token (snd (snd (complete_token t tid (qm, d)))) tid
            = Some (tok\<lparr>status := COMPLETED, updated_at := t,
                        token_notes := token_notes tok @ [(t, ''Consultation completed'')]\<rparr>)
         \<and> (\<forall>k. k \<noteq> tid \<longrightarrow>
               get_token (snd (snd (complete_token t tid (qm, d)))) k = get_token d k)"
  using assms
  by (simp add: complete_token_def get_token_store_token store_token_frame
      update_status_def add_note_def)

theorem C9_complete_changes_status_only_witness:
  "get_token (db (one_confirmed 1)) ''TKN1'' = Some token_a
   \<and> status token_a = CONFIRMED
   \<and> fst (complete_token 9 ''TKN1'' (QueueManager_init, db (one_confirmed 1)))
      = Inr (Completed ''TKN1'')
   \<and> map_option status
        (get_token (snd (snd (complete_token 9 ''TKN1'' (QueueManager_init, db (one_confirmed 1)))))
           ''TKN1'')
      = Some COMPLETED
   \<and> time_slots (snd (snd (complete_token 9 ''TKN1'' (QueueManager_init, db (one_confirmed 1)))))
      = time_slots (db (one_confirmed 1))"
proof -
  have h1: "get_token (db (one_confirmed 1)) ''TKN1'' = Some token_a" by code_simp
  have h2: "status token_a = CONFIRMED" by (simp add: token_a_def)
  show ?thesis
    using h1 h2 C9_complete_changes_status_only [OF h1 h2, of 9 QueueManager_init]
    by simp
qed

subsection \<open>Refused transitions\<close>

text \<open>
  C2: a reallocation operation on an unknown token id fails with \<open>TokenNotFound\<close>;
  \<open>cancel_token\<close> on a token that is \<open>CANCELLED\<close>, \<open>COMPLETED\<close> or \<open>NO_SHOW\<close>, and
  \<open>mark_no_show\<close>, \<open>demote_token\<close> and \<open>complete_token\<close> on a token that is not
  \<open>CONFIRMED\<close>, fail with \<open>InvalidTransition\<close>. In each case the queue manager and the
  store (tokens, slots and all) that the failed call leaves behind are the ones it
  was given.
\<close>

theorem C2_refused_transitions_change_nothing:
  "(get_token d tid = None \<longrightarrow>
      cancel_token t tid (qm, d) = (Inl TokenNotFound, qm, d)
      \<and> mark_no_show t tid (qm, d) = (Inl TokenNotFound, qm, d)
      \<and> demote_token t tid (qm, d) = (Inl TokenNotFound, qm, d)
      \<and> complete_token t tid (qm, d) = (Inl TokenNotFound, qm, d))
   \<and> (get_token d tid = Some tok \<and> status tok \<in> {CANCELLED, COMPLETED, NO_SHOW} \<longrightarrow>
      cancel_token t tid (qm, d) = (Inl InvalidTransition, qm, d))
   \<and> (get_token d tid = Some tok \<and> status tok \<noteq> CONFIRMED \<longrightarrow>
      mark_no_show t tid (qm, d) = (Inl InvalidTransition, qm, d)
      \<and> demote_token t tid (qm, d) = (Inl InvalidTransition, qm, d)
      \<and> complete_token t tid (qm, d) = (Inl InvalidTransition, qm, d))"
  by (simp add: cancel_token_def mark_no_show_def demote_token_def complete_token_def)

theorem C2_refused_transitions_change_nothing_witness:
  "get_token (db after_cancel) ''TKN1'' = Some token_a_cancelled
   \<and> status token_a_cancelled = CANCELLED
   \<and> cancel_token 5 ''TKN1'' (reallocation_queue after_cancel, db after_cancel)
      = (Inl InvalidTransition, reallocation_queue after_cancel, db after_cancel)
   \<and> mark_no_show 5 ''TKN1'' (reallocation_queue after_cancel, db after_cancel)
      = (Inl InvalidTransition, reallocation_queue after_cancel, db after_cancel)
   \<and> demote_token 5 ''TKN1'' (reallocation_queue after_cancel, db after_cancel)
      = (Inl InvalidTransition, reallocation_queue after_cancel, db after_cancel)
   \<and> complete_token 5 ''TKN1'' (reallocation_queue after_cancel, db after_cancel)
      = (Inl InvalidTransition, reallocation_queue after_cancel, db after_cancel)
   \<and> get_token (db after_cancel) ''TKN9'' = None
   \<and> cancel_token 5 ''TKN9'' (reallocation_queue after_cancel, db after_cancel)
      = (Inl TokenNotFound, reallocation_queue after_cancel, db after_cancel)"
proof -
  have h1: "get_token (db after_cancel) ''TKN1'' = Some token_a_cancelled" by code_simp
  have h2: "status token_a_cancelled = CANCELLED" by (simp add: token_a_cancelled_def)
  have h3: "get_token (db after_cancel) ''TKN9'' = None" by code_simp
  show ?thesis
    using h1 h2 h3
      C2_refused_transitions_change_nothing
        [of "db after_cancel" "''TKN1''" 5 "reallocation_queue after_cancel" token_a_cancelled]
      C2_refused_transitions_change_nothing
        [of "db after_cancel" "''TKN9''" 5 "reallocation_queue after_cancel" token_a_cancelled]
    by simp
qed

subsection \<open>Patient creation before slot resolution\<close>

text \<open>
  C10 (as stated, refuted): the claim's two conditions do not make \<open>allocate_token\<close>
  reach the slot lookup. For the unknown doctor \<open>DOC999\<close>, with a phone number that is
  new and no matching slot, \<open>allocate_token\<close> fails with \<open>DoctorNotFound\<close> and leaves
  the store as it was: no patient has been created.
\<close>

theorem C10_counterexample:
  "find_patient_by_phone (db (clinic 1)) (pd_phone patient_a) = None
   \<and> find_slot_by_time (db (clinic 1)) ''DOC999'' ''2026-01-29'' ''09:00'' = None
   \<and> allocate_token env1 patient_a ''DOC999'' ''2026-01-29'' ''09:00'' ''WALK_IN''
        (QueueManager_init, db (clinic 1))
      = (Inl DoctorNotFound, QueueManager_init, db (clinic 1))
   \<and> patients (db (clinic 1)) = []"
  by code_simp

text \<open>
  C10 (amended): when no patient of the store has the request's phone number and no
  slot matches doctor, date and time, \<open>allocate_emergency_token\<close>, and \<open>allocate_token\<close>
  once it has accepted the source and found the doctor, fail with \<open>SlotNotFound\<close>, and
  the store they leave behind is the given one with the newly constructed patient
  added: it is found there under its id and by its phone number. An \<open>allocate_token\<close>
  call with an unrecognized source or an absent doctor fails before that, with
  \<open>InvalidSource\<close> or \<open>DoctorNotFound\<close>, and leaves the store as it was.
\<close>

theorem C10_patient_persists_when_slot_missing:
  assumes "find_patient_by_phone d (pd_phone pd) = None"
    and "find_slot_by_time d did dt tm = None"
  shows "(validate_source src \<and> get_doctor d did \<noteq> None \<longrightarrow>
            allocate_token ev pd did dt tm src (qm, d)
            = (Inl SlotNotFound, qm, add_patient (Patient_init (new_patient_id ev) (now ev) pd) d))
         \<and> allocate_emergency_token ev pd did dt tm (qm, d)
            = (Inl SlotNotFound, qm, add_patient (Patient_init (new_patient_id ev) (now ev) pd) d)
         \<and> get_patient (add_patient (Patient_init (new_patient_id ev) (now ev) pd) d)
              (new_patient_id ev)
            = Some (Patient_init (new_patient_id ev) (now ev) pd)
         \<and> find_patient_by_phone (add_patient (Patient_init (new_patient_id ev) (now ev) pd) d)
              (pd_phone pd)
            = Some (Patient_init (new_patient_id ev) (now ev) pd)
         \<and> (\<not> validate_source src \<longrightarrow>
            allocate_token ev pd did dt tm src (qm, d) = (Inl InvalidSource, qm, d))
         \<and> (validate_source src \<and> get_doctor d did = None \<longrightarrow>
            allocate_token ev pd did dt tm src (qm, d) = (Inl DoctorNotFound, qm, d))"
proof -
  let ?p = "Patient_init (new_patient_id ev) (now ev) pd"
  have ph: "phone ?p = pd_phone pd" and pid: "p_id ?p = new_patient_id ev"
    by (simp_all add: Patient_init_def)
  have g: "get_or_create_patient ev pd d = (?p, add_patient ?p d)"
    using assms(1) by (simp add: get_or_create_patient_def Let_def)
  have s: "find_slot_by_time (add_patient ?p d) did dt tm = None"
    using assms(2) by (simp add: find_slot_add_patient)
  have a: "validate_source src \<and> get_doctor d did \<noteq> None \<longrightarrow>
            allocate_token ev pd did dt tm src (qm, d) = (Inl SlotNotFound, qm, add_patient ?p d)"
    using g s by (auto simp: allocate_token_def)
  have e: "allocate_emergency_token ev pd did dt tm (qm, d)
           = (Inl SlotNotFound, qm, add_patient ?p d)"
    using g s by (simp add: allocate_emergency_token_def)
  have p1: "get_patient (add_patient ?p d) (new_patient_id ev) = Some ?p"
    using get_patient_after_add [of ?p d] pid by simp
  have p2: "find_patient_by_phone (add_patient ?p d) (pd_phone pd) = Some ?p"
    using find_patient_after_add [of d ?p] assms(1) ph by simp
  have r1: "\<not> validate_source src \<longrightarrow>
            allocate_token ev pd did dt tm src (qm, d) = (Inl InvalidSource, qm, d)"
    by (simp add: allocate_token_def)
  have r2: "validate_source src \<and> get_doctor d did = None \<longrightarrow>
            allocate_token ev pd did dt tm src (qm, d) = (Inl DoctorNotFound, qm, d)"
    by (simp add: allocate_token_def)
  show ?thesis using a e p1 p2 r1 r2 by blast
qed

theorem C10_patient_persists_when_slot_missing_witness:
  "find_patient_by_phone (db (clinic 1)) (pd_phone patient_a) = None
   \<and> find_slot_by_time (db (clinic 1)) ''DOC001'' ''2026-01-30'' ''09:00'' = None
   \<and> validate_source ''WALK_IN''
   \<and> get_doctor (db (clinic 1)) ''DOC001'' \<noteq> None
   \<and> fst (allocate_token env1 patient_a ''DOC001'' ''2026-01-30'' ''09:00'' ''WALK_IN''
            (QueueManager_init, db (clinic 1))) = Inl SlotNotFound
   \<and> fst (allocate_emergency_token env1 patient_a ''DOC001'' ''2026-01-30'' ''09:00''
            (QueueManager_init, db (clinic 1))) = Inl SlotNotFound
   \<and> map_option name
       (get_patient (snd (snd (allocate_token env1 patient_a ''DOC001'' ''2026-01-30'' ''09:00''
            ''WALK_IN'' (QueueManager_init, db (clinic 1))))) ''PAT1'') = Some ''Ramesh Singh''
   \<and> validate_source ''VIP'' = False
   \<and> allocate_token env1 patient_a ''DOC001'' ''2026-01-30'' ''09:00'' ''VIP''
        (QueueManager_init, db (clinic 1))
      = (Inl InvalidSource, QueueManager_init, db (clinic 1))"
proof -
  have h1: "find_patient_by_phone (db (clinic 1)) (pd_phone patient_a) = None" by code_simp
  have h2: "find_slot_by_time (db (clinic 1)) ''DOC001'' ''2026-01-30'' ''09:00'' = None"
    by code_simp
  have h3: "validate_source ''WALK_IN''" by code_simp
  have h4: "get_doctor (db (clinic 1)) ''DOC001'' \<noteq> None" by code_simp
  have h5: "validate_source ''VIP'' = False" by code_simp
  have n: "new_patient_id env1 = ''PAT1''" by (simp add: env1_def)
  have m: "name (Patient_init (new_patient_id env1) (now env1) patient_a) = ''Ramesh Singh''"
    by (simp add: Patient_init_def patient_a_def)
  show ?thesis
    using h1 h2 h3 h4 h5 n m
      C10_patient_persists_when_slot_missing [OF h1 h2, of "''WALK_IN''" env1 QueueManager_init]
      C10_patient_persists_when_slot_missing [OF h1 h2, of "''VIP''" env1 QueueManager_init]
    by simp
qed

subsection \<open>The waitlist of a slot in a queue manager\<close>

lemma entry_le_key: "entry_le x y = (entry_key x \<le> entry_key y)"
  by (auto simp: entry_le_def entry_key_def less_eq_prod_def)

lemma waitlist_sorted_key: "waitlist_sorted l = sorted (map entry_key l)"
proof -
  have "entry_le = (\<lambda>x y. entry_key x \<le> entry_key y)"
    by (intro ext) (rule entry_le_key)
  then show ?thesis by (simp add: waitlist_sorted_def sorted_map)
qed

lemma waitlist_sorted_sort: "waitlist_sorted (sort_key entry_key l)"
  by (simp add: waitlist_sorted_key)

lemma waitlist_sorted_filter: "waitlist_sorted l \<Longrightarrow> waitlist_sorted (filter P l)"
  by (simp add: waitlist_sorted_key sorted_filter)

lemma waitlist_of_add:
  "waitlist_of (fst (QueueManager_add_to_waitlist t sid tid prio qm)) sid' =
     (if sid' = sid
      then sort_key entry_key
             (waitlist_of qm sid @ [\<lparr>e_token_id = tid, e_priority = prio, e_timestamp = t\<rparr>])
      else waitlist_of qm sid')"
  by (simp add: QueueManager_add_to_waitlist_def sort_waitlist_def waitlist_of_def Let_def
      update_conv' split: option.splits)

lemma waitlist_of_remove:
  "waitlist_of (fst (QueueManager_remove_from_waitlist sid tid qm)) sid' =
     (if sid' = sid then filter (\<lambda>item. e_token_id item \<noteq> tid) (waitlist_of qm sid)
      else waitlist_of qm sid')"
  by (simp add: QueueManager_remove_from_waitlist_def waitlist_of_def update_conv'
      split: option.splits)

lemma apply_queue_op_sorted:
  "\<forall>sid. waitlist_sorted (waitlist_of qm sid) \<Longrightarrow>
   waitlist_sorted (waitlist_of (apply_queue_op op qm) sid)"
  by (cases op) (simp_all add: waitlist_of_add waitlist_of_remove waitlist_sorted_sort
      waitlist_sorted_filter)

lemma run_queue_ops_sorted:
  "\<forall>sid. waitlist_sorted (waitlist_of qm sid) \<Longrightarrow>
   waitlist_sorted (waitlist_of (run_queue_ops ops qm) sid)"
proof (induction ops arbitrary: qm sid)
  case Nil
  then show ?case by (simp add: run_queue_ops_def)
next
  case (Cons op ops)
  have "\<forall>s. waitlist_sorted (waitlist_of (apply_queue_op op qm) s)"
    using Cons.prems apply_queue_op_sorted by blast
  from Cons.IH [OF this] show ?case by (simp add: run_queue_ops_def)
qed

lemma init_sorted: "waitlist_sorted (waitlist_of QueueManager_init sid)"
  by (simp add: QueueManager_init_def waitlist_of_def waitlist_sorted_def)

lemma first_index_Some:
  "first_index tid l = Some i \<Longrightarrow>
   i < length l \<and> e_token_id (l ! i) = tid \<and> (\<forall>j < i. e_token_id (l ! j) \<noteq> tid)"
proof (induction l arbitrary: i)
  case Nil
  then show ?case by simp
next
  case (Cons x xs)
  show ?case
  proof (cases "e_token_id x = tid")
    case True
    with Cons.prems show ?thesis by simp
  next
    case False
    with Cons.prems obtain k where k: "first_index tid xs = Some k" "i = Suc k"
      by auto
    from Cons.IH [OF k(1)] False k(2) show ?thesis
      by (auto simp: less_Suc_eq_0_disj)
  qed
qed

lemma first_index_mem:
  "x \<in> set l \<Longrightarrow> e_token_id x = tid \<Longrightarrow> \<exists>i. first_index tid l = Some i"
  by (induction l) auto

lemma add_position:
  assumes "QueueManager_add_to_waitlist t sid tid prio qm = (qm', pos)"
  shows "\<exists>i. first_index tid (waitlist_of qm' sid) = Some i \<and> pos = int i + 1"
proof -
  let ?e = "\<lparr>e_token_id = tid, e_priority = prio, e_timestamp = t\<rparr>"
  have q: "qm' = fst (QueueManager_add_to_waitlist t sid tid prio qm)" using assms by simp
  have "?e \<in> set (waitlist_of qm' sid)" by (simp add: q waitlist_of_add)
  then obtain i where i: "first_index tid (waitlist_of qm' sid) = Some i"
    using first_index_mem [of ?e "waitlist_of qm' sid" tid] by auto
  have "pos = (case first_index tid (waitlist_of qm' sid) of
                  Some idx \<Rightarrow> int idx + 1
                | None \<Rightarrow> int (length (waitlist_of qm' sid)))"
    using assms by (auto simp: QueueManager_add_to_waitlist_def Let_def)
  with i show ?thesis by simp
qed

lemma get_waitlist_position_of:
  "first_index tid (waitlist_of qm sid) = Some i \<Longrightarrow>
   get_waitlist_position sid tid qm = Some (int i + 1)"
  by (auto simp: get_waitlist_position_def waitlist_of_def split: option.splits)

lemma slot_waitlist_after_add:
  "waitlist (fst (TimeSlot_add_to_waitlist tid s)) =
     (if tid \<in> set (waitlist s) then waitlist s else waitlist s @ [tid])"
  by (simp add: TimeSlot_add_to_waitlist_def)

lemma slot_waitlist_after_remove:
  "waitlist (fst (TimeSlot_remove_from_waitlist tid s)) = remove1 tid (waitlist s)"
  by (simp add: TimeSlot_remove_from_waitlist_def remove1_idem)

text \<open>
  C5 (as stated, refuted): the slot's own list, which \<open>TimeSlot.add_to_waitlist\<close>
  appends to, is not ordered by priority. With the walk-in \<open>TKN2\<close> (rank 5, created at
  time 2) and then the paid-priority \<open>TKN3\<close> (rank 2, created at time 3) waitlisted on the
  same slot, the slot's \<open>waitlist\<close> is \<open>[TKN2, TKN3]\<close>, which is not ascending by rank,
  while the queue manager's waitlist of the slot is \<open>[TKN3, TKN2]\<close>.
\<close>

theorem C5_counterexample:
  "map_option waitlist (get_time_slot (db two_waiting) ''SLOT1'') = Some [''TKN2'', ''TKN3'']
   \<and> map_option (slot_waitlist_ranked (db two_waiting)) (get_time_slot (db two_waiting) ''SLOT1'')
      = Some [\<lparr>e_token_id = ''TKN2'', e_priority = 5, e_timestamp = 2\<rparr>,
              \<lparr>e_token_id = ''TKN3'', e_priority = 2, e_timestamp = 3\<rparr>]
   \<and> \<not> waitlist_sorted [\<lparr>e_token_id = ''TKN2'', e_priority = 5, e_timestamp = 2\<rparr>,
                         \<lparr>e_token_id = ''TKN3'', e_priority = 2, e_timestamp = 3\<rparr>]
   \<and> map e_token_id (waitlist_of (allocation_queue two_waiting) ''SLOT1'')
      = [''TKN3'', ''TKN2'']"
  by code_simp

text \<open>
  C5 (amended): after any sequence of \<open>add_to_waitlist\<close> and \<open>remove_from_waitlist\<close>
  calls on a new queue manager (and, more generally, on one whose waitlists are
  ordered), the queue manager's waitlist of every slot is ordered ascending by priority
  number and, among equal priority numbers, by timestamp. The position that
  \<open>add_to_waitlist\<close> returns is the 1-indexed position of the first entry of that token
  id in the ordered waitlist, which is what \<open>get_waitlist_position\<close> reports afterwards.
  The slot's own \<open>waitlist\<close> field is not kept in that order: \<open>TimeSlot.add_to_waitlist\<close>
  appends an id that is not yet in the list, and \<open>TimeSlot.remove_from_waitlist\<close> removes
  its first occurrence, so the field lists the waiting ids in the order of their arrival.
\<close>

theorem C5_queue_sorted_slot_list_by_arrival:
  "(\<forall>sid. waitlist_sorted (waitlist_of (run_queue_ops ops QueueManager_init) sid))
   \<and> ((\<forall>sid. waitlist_sorted (waitlist_of qm sid)) \<longrightarrow>
        (\<forall>sid. waitlist_sorted (waitlist_of (run_queue_ops ops qm) sid)))
   \<and> (QueueManager_add_to_waitlist t sid tid prio qm = (qm', pos) \<longrightarrow>
        1 \<le> pos \<and> pos \<le> int (length (waitlist_of qm' sid))
        \<and> e_token_id (waitlist_of qm' sid ! nat (pos - 1)) = tid
        \<and> (\<forall>j < nat (pos - 1). e_token_id (waitlist_of qm' sid ! j) \<noteq> tid)
        \<and> get_waitlist_position sid tid qm' = Some pos)
   \<and> waitlist (fst (TimeSlot_add_to_waitlist wid slot)) =
        (if wid \<in> set (waitlist slot) then waitlist slot else waitlist slot @ [wid])
   \<and> waitlist (fst (TimeSlot_remove_from_waitlist wid slot)) = remove1 wid (waitlist slot)"
proof -
  have a: "\<forall>sid. waitlist_sorted (waitlist_of (run_queue_ops ops QueueManager_init) sid)"
    using run_queue_ops_sorted init_sorted by blast
  have b: "(\<forall>sid. waitlist_sorted (waitlist_of qm sid)) \<longrightarrow>
        (\<forall>sid. waitlist_sorted (waitlist_of (run_queue_ops ops qm) sid))"
    using run_queue_ops_sorted by blast
  have c: "QueueManager_add_to_waitlist t sid tid prio qm = (qm', pos) \<longrightarrow>
        1 \<le> pos \<and> pos \<le> int (length (waitlist_of qm' sid))
        \<and> e_token_id (waitlist_of qm' sid ! nat (pos - 1)) = tid
        \<and> (\<forall>j < nat (pos - 1). e_token_id (waitlist_of qm' sid ! j) \<noteq> tid)
        \<and> get_waitlist_position sid tid qm' = Some pos"
  proof
    assume h: "QueueManager_add_to_waitlist t sid tid prio qm = (qm', pos)"
    from add_position [OF h] obtain i where
      i: "first_index tid (waitlist_of qm' sid) = Some i" "pos = int i + 1" by blast
    from first_index_Some [OF i(1)] get_waitlist_position_of [OF i(1)] i(2)
    show "1 \<le> pos \<and> pos \<le> int (length (waitlist_of qm' sid))
        \<and> e_token_id (waitlist_of qm' sid ! nat (pos - 1)) = tid
        \<and> (\<forall>j < nat (pos - 1). e_token_id (waitlist_of qm' sid ! j) \<noteq> tid)
        \<and> get_waitlist_position sid tid qm' = Some pos"
      by simp
  qed
  show ?thesis
    using a b c slot_waitlist_after_add [of wid slot] slot_waitlist_after_remove [of wid slot]
    by blast
qed

theorem C5_queue_sorted_slot_list_by_arrival_witness:
  "waitlist_sorted (waitlist_of demo_queue ''SLOT1'')
   \<and> map e_token_id (waitlist_of demo_queue ''SLOT1'') = [''TKN2'', ''TKN3'', ''TKN5'']
   \<and> waitlist_sorted (waitlist_of (run_queue_ops [Remove ''SLOT1'' ''TKN3''] demo_queue) ''SLOT1'')
   \<and> snd (QueueManager_add_to_waitlist 6 ''SLOT1'' ''TKN6'' 3 demo_queue) = 2
   \<and> get_waitlist_position ''SLOT1'' ''TKN6''
        (fst (QueueManager_add_to_waitlist 6 ''SLOT1'' ''TKN6'' 3 demo_queue)) = Some 2
   \<and> map e_token_id
        (waitlist_of (fst (QueueManager_add_to_waitlist 6 ''SLOT1'' ''TKN6'' 3 demo_queue)) ''SLOT1'')
      = [''TKN2'', ''TKN6'', ''TKN3'', ''TKN5'']
   \<and> waitlist (fst (TimeSlot_add_to_waitlist ''TKN6'' ((slot1 1)\<lparr>waitlist := [''TKN2'', ''TKN3'']\<rparr>)))
      = [''TKN2'', ''TKN3'', ''TKN6'']"
proof -
  let ?add = "QueueManager_add_to_waitlist 6 ''SLOT1'' ''TKN6'' 3 demo_queue"
  have p: "snd ?add = 2" by code_simp
  have h: "?add = (fst ?add, 2)" using p by (simp add: prod_eq_iff)
  have m1: "map e_token_id (waitlist_of demo_queue ''SLOT1'') = [''TKN2'', ''TKN3'', ''TKN5'']"
    by code_simp
  have m2: "map e_token_id (waitlist_of (fst ?add) ''SLOT1'')
            = [''TKN2'', ''TKN6'', ''TKN3'', ''TKN5'']"
    by code_simp
  have s0: "\<forall>sid. waitlist_sorted (waitlist_of demo_queue sid)"
    using C5_queue_sorted_slot_list_by_arrival
      [of "[Enqueue 1 ''SLOT1'' ''TKN1'' 5, Enqueue 2 ''SLOT1'' ''TKN2'' 2,
            Enqueue 3 ''SLOT1'' ''TKN3'' 5, Remove ''SLOT1'' ''TKN1'',
            Enqueue 4 ''SLOT1'' ''TKN5'' 5]"]
    unfolding demo_queue_def by blast
  show ?thesis
    using p h m1 m2 s0
      C5_queue_sorted_slot_list_by_arrival
        [of "[Remove ''SLOT1'' ''TKN3'']" demo_queue 6 "''SLOT1''" "''TKN6''" 3 "fst ?add" 2
          "''TKN6''" "(slot1 1)\<lparr>waitlist := [''TKN2'', ''TKN3'']\<rparr>"]
    by simp
qed

subsection \<open>Allocation\<close>




subsection \<open>Emergency preemption\<close>

lemma get_or_create_patient_lookups:
  "get_token (snd (get_or_create_patient ev pd d)) k = get_token d k"
  "get_time_slot (snd (get_or_create_patient ev pd d)) k = get_time_slot d k"
  by (simp_all add: get_token_def get_time_slot_def get_or_create_patient_frame)

lemma demote_token_ok:
  assumes "get_token d tid = Some tok" and "status tok = CONFIRMED"
    and "get_time_slot d (slot_id tok) = Some slot"
  shows "demote_token t tid (qm, d) =
     (Inr (Demoted tid (snd (QueueManager_add_to_waitlist t (ts_id slot) tid (priority tok) qm))),
      fst (QueueManager_add_to_waitlist t (ts_id slot) tid (priority tok) qm),
      store_token tid
        ((update_status t WAITLISTED ''Demoted to accommodate higher priority token'' tok)
           \<lparr>token_number := None, estimated_time := None\<rparr>)
        (store_slot (slot_id tok)
           (fst (TimeSlot_add_to_waitlist tid (fst (remove_token tid slot)))) d))"
  using assms by (simp add: demote_token_def Let_def split: prod.splits)

lemma add_to_new_queue:
  "QueueManager_add_to_waitlist t sid tid prio QueueManager_init =
     (\<lparr>waitlists = [(sid, [\<lparr>e_token_id = tid, e_priority = prio, e_timestamp = t\<rparr>])]\<rparr>, 1)"
  by (simp add: QueueManager_add_to_waitlist_def QueueManager_init_def sort_waitlist_def
      waitlist_of_def Let_def)

text \<open>
  What the emergency path does on a slot of capacity 1 that holds exactly one token, a
  confirmed walk-in \<open>v\<close> with id \<open>vid\<close> (stored under its id, bound to this slot, with the
  walk-in rank), when the id drawn for the new token differs from \<open>vid\<close>: the emergency
  token is confirmed with number 1 and rank 1; the walk-in token is \<open>WAITLISTED\<close> with
  number and estimated time cleared, and its id is in the slot's \<open>waitlist\<close> field. The
  demotion is the \<open>demote_token\<close> of the reallocation service built inside the call: it
  makes the entry of \<open>vid\<close> at the token's own rank in that service's queue manager,
  which is then dropped. The queue manager of the allocation service is returned as it
  was.
\<close>

lemma emergency_preemption_outcome:
  assumes "find_slot_by_time d did dt tm = Some slot"
    and "get_time_slot d (ts_id slot) = Some slot"
    and "max_capacity slot = 1" and "allocated_count slot = 1" and "tokens slot = [vid]"
    and "get_token d vid = Some v" and "token_id v = vid" and "status v = CONFIRMED"
    and "source v = ''WALK_IN''" and "priority v = get_priority_for_source ''WALK_IN''"
    and "slot_id v = ts_id slot"
    and "parse_start_time (start_time slot) = Some (h, m)"
    and "new_token_id ev \<noteq> vid"
  shows "\<exists>tok d'.
      allocate_emergency_token ev pd did dt tm (qm, d)
        = (Inr (tok, MSG_EMERGENCY_CONFIRMED_DEMOTED vid), qm, d')
      \<and> status tok = CONFIRMED \<and> token_number tok = Some 1
      \<and> source tok = ''EMERGENCY'' \<and> priority tok = 1 \<and> slot_id tok = ts_id slot
      \<and> get_token d' (new_token_id ev) = Some tok
      \<and> get_token d' vid
         = Some (v\<lparr>status := WAITLISTED, updated_at := now ev,
                   token_notes := token_notes v
                     @ [(now ev, ''Demoted to accommodate higher priority token'')],
                   token_number := None, estimated_time := None\<rparr>)
      \<and> get_time_slot d' (ts_id slot)
         = Some (slot\<lparr>tokens := [new_token_id ev], allocated_count := 1,
                      waitlist := (if vid \<in> set (waitlist slot) then waitlist slot
                                   else waitlist slot @ [vid])\<rparr>)
      \<and> fst (emergency_demote (now ev) vid (snd (get_or_create_patient ev pd d)))
         = Inr (Demoted vid 1)
      \<and> waitlist_of (fst (snd (emergency_demote (now ev) vid (snd (get_or_create_patient ev pd d)))))
           (ts_id slot)
         = [\<lparr>e_token_id = vid, e_priority = priority v, e_timestamp = now ev\<rparr>]"
proof -
  obtain pat d1 where g: "get_or_create_patient ev pd d = (pat, d1)"
    by (cases "get_or_create_patient ev pd d")
  have d1: "d1 = snd (get_or_create_patient ev pd d)" using g by simp
  have fs: "find_slot_by_time d1 did dt tm = Some slot"
    using assms(1) by (simp add: d1 find_slot_get_or_create)
  have gv: "get_token d1 vid = Some v" and gsl: "get_time_slot d1 (slot_id v) = Some slot"
    using assms(2,6,11) by (simp_all add: d1 get_or_create_patient_lookups)
  have full: "is_full slot" using assms(3,4) by (simp add: is_full_def)
  have mx: "max_by_priority (map (get_token d1) (tokens slot)) = Inr v"
    using assms(5) gv by (simp add: max_by_priority_def)
  have ep: "get_priority_for_source ''EMERGENCY'' = 1"
    by (simp add: get_priority_for_source_def PRIORITY_LEVELS_def)
  have wp: "priority v = 5"
    using assms(10) by (simp add: get_priority_for_source_def PRIORITY_LEVELS_def)
  have sd: "should_demote (priority v) 1" using wp by (simp add: should_demote_def)
  let ?v2 = "v\<lparr>status := WAITLISTED, updated_at := now ev,
                token_notes := token_notes v
                  @ [(now ev, ''Demoted to accommodate higher priority token'')],
                token_number := None, estimated_time := None\<rparr>"
  let ?slot2 = "slot\<lparr>tokens := [], allocated_count := 0,
                     waitlist := (if vid \<in> set (waitlist slot) then waitlist slot
                                  else waitlist slot @ [vid])\<rparr>"
  let ?dq = "\<lparr>waitlists = [(ts_id slot,
               [\<lparr>e_token_id = vid, e_priority = priority v, e_timestamp = now ev\<rparr>])]\<rparr>"
  let ?d2 = "store_token vid ?v2 (store_slot (ts_id slot) ?slot2 d1)"
  have s2: "fst (TimeSlot_add_to_waitlist vid (fst (remove_token vid slot))) = ?slot2"
    using assms(4,5) by (simp add: remove_token_def TimeSlot_add_to_waitlist_def)
  have v2: "(update_status (now ev) WAITLISTED ''Demoted to accommodate higher priority token'' v)
              \<lparr>token_number := None, estimated_time := None\<rparr> = ?v2"
    by (simp add: update_status_def add_note_def)
  have dem: "emergency_demote (now ev) vid d1 = (Inr (Demoted vid 1), ?dq, ?d2)"
    unfolding emergency_demote_def
    using demote_token_ok [OF gv assms(8) gsl, of "now ev" QueueManager_init]
    by (simp add: add_to_new_queue s2 v2 assms(11))
  have rd: "get_time_slot ?d2 (ts_id slot) = Some ?slot2"
    by (simp add: get_time_slot_def store_token_frame store_slot_def update_conv')
  have lt: "allocated_count ?slot2 < max_capacity ?slot2" using assms(3) by simp
  have ps: "parse_start_time (start_time ?slot2) = Some (h, m)" using assms(12) by simp
  from confirm_into_ok [OF lt ps, of ev "p_id pat" did "''EMERGENCY''" 1
      "MSG_EMERGENCY_CONFIRMED_DEMOTED vid" qm ?d2]
  obtain tok d' where
    c: "confirm_into ev (p_id pat) did ?slot2 ''EMERGENCY'' 1
          (MSG_EMERGENCY_CONFIRMED_DEMOTED vid) (qm, ?d2)
        = (Inr (tok, MSG_EMERGENCY_CONFIRMED_DEMOTED vid), qm, d')"
    and ct: "create_confirmed_token ev (p_id pat) did ?slot2 ''EMERGENCY'' 1 = Inr tok"
    and gt: "get_token d' (new_token_id ev) = Some tok"
    and go: "\<forall>k. k \<noteq> new_token_id ev \<longrightarrow> get_token d' k = get_token ?d2 k"
    and gs: "get_time_slot d' (ts_id ?slot2)
             = Some (?slot2\<lparr>tokens := tokens ?slot2 @ [new_token_id ev],
                            allocated_count := allocated_count ?slot2 + 1\<rparr>)"
    by blast
  from create_confirmed_token_ok [OF ps, of ev "p_id pat" did "''EMERGENCY''" 1] ct
  have tf: "status tok = CONFIRMED" "token_number tok = Some 1" "source tok = ''EMERGENCY''"
    "priority tok = 1" "slot_id tok = ts_id slot"
    by auto
  have run: "allocate_emergency_token ev pd did dt tm (qm, d)
             = (Inr (tok, MSG_EMERGENCY_CONFIRMED_DEMOTED vid), qm, d')"
    using g fs full mx sd dem rd c assms(7)
    by (simp add: allocate_emergency_token_def Let_def ep)
  have gvid: "get_token d' vid = Some ?v2"
    using go assms(13) by (simp add: get_token_store_token)
  have gslot: "get_time_slot d' (ts_id slot)
         = Some (slot\<lparr>tokens := [new_token_id ev], allocated_count := 1,
                      waitlist := (if vid \<in> set (waitlist slot) then waitlist slot
                                   else waitlist slot @ [vid])\<rparr>)"
    using gs by simp
  have q1: "fst (emergency_demote (now ev) vid (snd (get_or_create_patient ev pd d)))
         = Inr (Demoted vid 1)"
    using dem d1 by simp
  have q2: "waitlist_of (fst (snd (emergency_demote (now ev) vid
              (snd (get_or_create_patient ev pd d))))) (ts_id slot)
         = [\<lparr>e_token_id = vid, e_priority = priority v, e_timestamp = now ev\<rparr>]"
    using dem d1 by (simp add: waitlist_of_def)
  show ?thesis using run tf gt gvid gslot q1 q2 by blast
qed

text \<open>
  C3 (the code loses the ranked entry): in scenario B the slot of capacity 1 holds the
  confirmed walk-in \<open>TKN1\<close> and an emergency request arrives. The emergency token
  \<open>TKN2\<close> is confirmed with number 1, and \<open>TKN1\<close> becomes \<open>WAITLISTED\<close> with number and
  estimated time cleared and its id in the slot's \<open>waitlist\<close> field. But after the call
  the demoted token is enqueued nowhere: the waitlist of the slot is empty in the queue
  manager of the allocation service and in that of the reallocation service, and
  neither reports a position for \<open>TKN1\<close>. When the emergency token is cancelled
  afterwards nobody is promoted, and \<open>TKN1\<close> stays waitlisted while the slot is empty.
\<close>

theorem C3_demoted_token_in_no_queue:
  "message_of (fst scenario_b) = Inr (MSG_EMERGENCY_CONFIRMED_DEMOTED ''TKN1'')
   \<and> token_view (snd scenario_b) ''TKN1'' = Some (WAITLISTED, None, None)
   \<and> token_number_view (snd scenario_b) ''TKN2'' = Some (CONFIRMED, Some 1)
   \<and> map_option (\<lambda>s. (tokens s, waitlist s)) (get_time_slot (db (snd scenario_b)) ''SLOT1'')
      = Some ([''TKN2''], [''TKN1''])
   \<and> waitlist_of (allocation_queue (snd scenario_b)) ''SLOT1'' = []
   \<and> waitlist_of (reallocation_queue (snd scenario_b)) ''SLOT1'' = []
   \<and> get_waitlist_position ''SLOT1'' ''TKN1'' (allocation_queue (snd scenario_b)) = None
   \<and> get_waitlist_position ''SLOT1'' ''TKN1'' (reallocation_queue (snd scenario_b)) = None
   \<and> fst (by_reallocation_service (cancel_token 5 ''TKN2'') (snd scenario_b))
      = Inr (Cancelled ''TKN2'' None)
   \<and> token_view (snd (by_reallocation_service (cancel_token 5 ''TKN2'') (snd scenario_b))) ''TKN1''
      = Some (WAITLISTED, None, None)
   \<and> map_option tokens
        (get_time_slot (db (snd (by_reallocation_service (cancel_token 5 ''TKN2'')
           (snd scenario_b)))) ''SLOT1'')
      = Some []"
  by code_simp

subsection \<open>Capacity\<close>

lemma slot_ok_add_token: "slot_ok s \<Longrightarrow> slot_ok (fst (add_token tid s))"
  by (auto simp: slot_ok_def add_token_def)

lemma slot_ok_remove_token:
  assumes "slot_ok s"
  shows "slot_ok (fst (remove_token tid s))"
proof (cases "tid \<in> set (tokens s)")
  case True
  then have "0 < length (tokens s)" by (rule length_pos_if_in_set)
  then have "int (length (tokens s) - 1) = int (length (tokens s)) - 1"
    by (cases "tokens s") simp_all
  with True assms show ?thesis
    by (simp add: slot_ok_def remove_token_def length_remove1)
next
  case False
  with assms show ?thesis by (simp add: remove_token_def)
qed

lemma slot_ok_add_to_waitlist: "slot_ok s \<Longrightarrow> slot_ok (fst (TimeSlot_add_to_waitlist tid s))"
  by (simp add: slot_ok_def TimeSlot_add_to_waitlist_def)

lemma slot_ok_remove_from_waitlist:
  "slot_ok s \<Longrightarrow> slot_ok (fst (TimeSlot_remove_from_waitlist tid s))"
  by (simp add: slot_ok_def TimeSlot_remove_from_waitlist_def)

lemma set_update_subset: "set (AList.update k v al) \<subseteq> insert (k, v) (set al)"
  by (induction al) auto

lemma slots_ok_store_slot: "slots_ok d \<Longrightarrow> slot_ok s \<Longrightarrow> slots_ok (store_slot k s d)"
  using set_update_subset [of k s "time_slots d"]
  by (auto simp: slots_ok_def store_slot_def list_all_iff)

lemma slots_ok_store_token: "slots_ok (store_token k t d) = slots_ok d"
  by (simp add: slots_ok_def store_token_frame)

lemma slots_ok_add_token: "slots_ok (DataStore_add_token t d) = slots_ok d"
  by (simp add: slots_ok_def add_token_store_frame)

lemma slots_ok_get_or_create: "slots_ok (snd (get_or_create_patient ev pd d)) = slots_ok d"
  by (simp add: slots_ok_def get_or_create_patient_frame)

lemma slots_ok_get: "slots_ok d \<Longrightarrow> get_time_slot d k = Some s \<Longrightarrow> slot_ok s"
  by (auto simp: slots_ok_def get_time_slot_def list_all_iff dest!: map_of_SomeD)

lemma slots_ok_find: "slots_ok d \<Longrightarrow> find_slot_by_time d did dt tm = Some s \<Longrightarrow> slot_ok s"
  by (auto simp: slots_ok_def find_slot_by_time_def list_all_iff find_Some_iff)

lemma promote_slots_ok:
  "slots_ok d \<Longrightarrow> slots_ok (snd (snd (promote_from_waitlist t sid (qm, d))))"
  by (auto simp: promote_from_waitlist_def Let_def slots_ok_store_token
      intro!: slots_ok_store_slot slot_ok_add_token slot_ok_remove_from_waitlist
      dest: slots_ok_get split: option.splits sum.splits)

lemma cancel_slots_ok:
  assumes "slots_ok d"
  shows "slots_ok (snd (snd (cancel_token t tid (qm, d))))"
proof (cases "get_token d tid")
  case None
  with assms show ?thesis by (simp add: cancel_token_def)
next
  case (Some tok)
  show ?thesis
  proof (cases "get_time_slot d (slot_id tok)")
    case None
    with Some assms show ?thesis by (simp add: cancel_token_def)
  next
    case (Some slot)
    have ok: "slot_ok slot" using slots_ok_get [OF assms Some] .
    let ?d2 = "store_token tid (update_status t CANCELLED ''Token cancelled by patient/admin'' tok)
                 (store_slot (slot_id tok) (fst (remove_token tid slot)) d)"
    have d2: "slots_ok ?d2"
      using assms ok by (simp add: slots_ok_store_token slots_ok_store_slot slot_ok_remove_token)
    have p: "slots_ok (snd (snd (promote_from_waitlist t (ts_id slot) (qm, ?d2))))"
      using promote_slots_ok [OF d2] .
    have w: "slots_ok (store_token tid (update_status t CANCELLED ''Waitlisted token cancelled'' tok)
                 (store_slot (slot_id tok) (fst (TimeSlot_remove_from_waitlist tid slot)) d))"
      using assms ok
      by (simp add: slots_ok_store_token slots_ok_store_slot slot_ok_remove_from_waitlist)
    show ?thesis
      using \<open>get_token d tid = Some tok\<close> Some assms p w
      by (auto simp: cancel_token_def Let_def split: prod.splits sum.splits)
  qed
qed

lemma no_show_slots_ok:
  assumes "slots_ok d"
  shows "slots_ok (snd (snd (mark_no_show t tid (qm, d))))"
proof (cases "get_token d tid")
  case None
  with assms show ?thesis by (simp add: mark_no_show_def)
next
  case (Some tok)
  show ?thesis
  proof (cases "get_time_slot d (slot_id tok)")
    case None
    with Some assms show ?thesis by (simp add: mark_no_show_def)
  next
    case (Some slot)
    have ok: "slot_ok slot" using slots_ok_get [OF assms Some] .
    let ?d2 = "store_token tid (update_status t NO_SHOW ''Patient did not arrive'' tok)
                 (store_slot (slot_id tok) (fst (remove_token tid slot)) d)"
    have d2: "slots_ok ?d2"
      using assms ok by (simp add: slots_ok_store_token slots_ok_store_slot slot_ok_remove_token)
    have p: "slots_ok (snd (snd (promote_from_waitlist t (ts_id slot) (qm, ?d2))))"
      using promote_slots_ok [OF d2] .
    show ?thesis
      using \<open>get_token d tid = Some tok\<close> Some assms p
      by (auto simp: mark_no_show_def Let_def split: prod.splits sum.splits)
  qed
qed

lemma demote_slots_ok:
  "slots_ok d \<Longrightarrow> slots_ok (snd (snd (demote_token t tid (qm, d))))"
  by (auto simp: demote_token_def Let_def slots_ok_store_token
      intro!: slots_ok_store_slot slot_ok_add_to_waitlist slot_ok_remove_token
      dest: slots_ok_get split: option.splits prod.splits)

lemma complete_slots_ok:
  "slots_ok d \<Longrightarrow> slots_ok (snd (snd (complete_token t tid (qm, d))))"
  by (auto simp: complete_token_def slots_ok_store_token split: option.splits)

lemma confirm_into_slots_ok:
  "slots_ok d \<Longrightarrow> slot_ok slot \<Longrightarrow>
   slots_ok (snd (snd (confirm_into ev pat did slot src prio msg (qm, d))))"
  by (auto simp: confirm_into_def Let_def slots_ok_add_token
      intro!: slots_ok_store_slot slot_ok_add_token split: sum.splits)

lemma waitlist_into_slots_ok:
  "slots_ok d \<Longrightarrow> slot_ok slot \<Longrightarrow>
   slots_ok (snd (snd (waitlist_into ev pat did slot src prio msg (qm, d))))"
  by (auto simp: waitlist_into_def Let_def slots_ok_add_token
      intro!: slots_ok_store_slot slot_ok_add_to_waitlist split: prod.splits)

lemma allocate_slots_ok:
  assumes "slots_ok d"
  shows "slots_ok (snd (snd (allocate_token ev pd did dt tm src (qm, d))))"
proof -
  obtain pat d1 where g: "get_or_create_patient ev pd d = (pat, d1)"
    by (cases "get_or_create_patient ev pd d")
  have d1: "slots_ok d1" using slots_ok_get_or_create [of ev pd d] g assms by simp
  show ?thesis
    using assms g d1 confirm_into_slots_ok [OF d1] waitlist_into_slots_ok [OF d1]
      slots_ok_find [OF d1]
    by (auto simp: allocate_token_def Let_def split: option.splits)
qed

lemma emergency_slots_ok:
  assumes "slots_ok d"
  shows "slots_ok (snd (snd (allocate_emergency_token ev pd did dt tm (qm, d))))"
proof -
  obtain pat d1 where g: "get_or_create_patient ev pd d = (pat, d1)"
    by (cases "get_or_create_patient ev pd d")
  have d1: "slots_ok d1" using slots_ok_get_or_create [of ev pd d] g assms by simp
  show ?thesis
  proof (cases "find_slot_by_time d1 did dt tm")
    case None
    with g d1 show ?thesis by (simp add: allocate_emergency_token_def)
  next
    case (Some slot)
    have ok: "slot_ok slot" using slots_ok_find [OF d1 Some] .
    show ?thesis
    proof (cases "is_full slot")
      case False
      with g Some confirm_into_slots_ok [OF d1 ok] show ?thesis
        by (simp add: allocate_emergency_token_def Let_def)
    next
      case True
      show ?thesis
      proof (cases "max_by_priority (map (get_token d1) (tokens slot))")
        case (Inl e)
        with g Some True d1 show ?thesis by (simp add: allocate_emergency_token_def Let_def)
      next
        case (Inr lowest)
        show ?thesis
        proof (cases "should_demote (priority lowest) (get_priority_for_source ''EMERGENCY'')")
          case False
          with g Some True Inr waitlist_into_slots_ok [OF d1 ok] show ?thesis
            by (simp add: allocate_emergency_token_def Let_def)
        next
          case sd: True
          obtain r q d2 where dm: "emergency_demote (now ev) (token_id lowest) d1 = (r, q, d2)"
            by (cases "emergency_demote (now ev) (token_id lowest) d1") auto
          have d2: "slots_ok d2"
            using demote_slots_ok [OF d1, of "now ev" "token_id lowest" QueueManager_init] dm
            by (simp add: emergency_demote_def)
          let ?slot1 = "case get_time_slot d2 (ts_id slot) of Some s \<Rightarrow> s | None \<Rightarrow> slot"
          have ok1: "slot_ok ?slot1"
            using ok slots_ok_get [OF d2] by (auto split: option.splits)
          show ?thesis
            using g Some True Inr sd dm d2 confirm_into_slots_ok [OF d2 ok1]
            by (cases r) (simp_all add: allocate_emergency_token_def Let_def)
        qed
      qed
    qed
  qed
qed

lemma db_by_allocation_service:
  "db (snd (by_allocation_service f e)) = snd (snd (f (allocation_queue e, db e)))"
  by (simp add: by_allocation_service_def split: prod.splits)

lemma db_by_reallocation_service:
  "db (snd (by_reallocation_service f e)) = snd (snd (f (reallocation_queue e, db e)))"
  by (simp add: by_reallocation_service_def split: prod.splits)

lemma run_op_slots_ok: "slots_ok (db e) \<Longrightarrow> slots_ok (db (run_op op e))"
proof (cases op)
  case (Allocate ev pd did dt tm src)
  assume a: "slots_ok (db e)"
  from allocate_slots_ok [OF a, of ev pd did dt tm src "allocation_queue e"] Allocate
  show ?thesis by (simp add: db_by_allocation_service)
next
  case (AllocateEmergency ev pd did dt tm)
  assume a: "slots_ok (db e)"
  from emergency_slots_ok [OF a, of ev pd did dt tm "allocation_queue e"] AllocateEmergency
  show ?thesis by (simp add: db_by_allocation_service)
next
  case (Cancel t tid)
  assume a: "slots_ok (db e)"
  from cancel_slots_ok [OF a, of t tid "reallocation_queue e"] Cancel
  show ?thesis by (simp add: db_by_reallocation_service)
next
  case (MarkNoShow t tid)
  assume a: "slots_ok (db e)"
  from no_show_slots_ok [OF a, of t tid "reallocation_queue e"] MarkNoShow
  show ?thesis by (simp add: db_by_reallocation_service)
next
  case (Demote t tid)
  assume a: "slots_ok (db e)"
  from demote_slots_ok [OF a, of t tid "reallocation_queue e"] Demote
  show ?thesis by (simp add: db_by_reallocation_service)
next
  case (Complete t tid)
  assume a: "slots_ok (db e)"
  from complete_slots_ok [OF a, of t tid "reallocation_queue e"] Complete
  show ?thesis by (simp add: db_by_reallocation_service)
next
  case (Promote t sid)
  assume a: "slots_ok (db e)"
  from promote_slots_ok [OF a, of t sid "reallocation_queue e"] Promote
  show ?thesis by (simp add: db_by_reallocation_service)
qed

lemma run_ops_slots_ok: "slots_ok (db e) \<Longrightarrow> slots_ok (db (run_ops ops e))"
proof (induction ops arbitrary: e)
  case Nil
  then show ?case by (simp add: run_ops_def)
next
  case (Cons op ops)
  from Cons.IH [OF run_op_slots_ok [OF Cons.prems, of op]]
  show ?case by (simp add: run_ops_def)
qed


lemma slot_ok_new: "0 \<le> cap \<Longrightarrow> slot_ok (TimeSlot_init sid t doc st en dt cap)"
  by (simp add: slot_ok_def TimeSlot_init_def)

text \<open>
  C4: if every slot of the store is in order (its counter is the length of its
  confirmed list, and that length is at most its capacity: so is every slot newly
  built with a capacity that is not negative), then after any sequence of engine
  operations (allocate, emergency allocation, cancel, no-show, demote, complete,
  promote, whether they return or raise) every slot is in order again; in particular
  the length of each slot's confirmed list is at most the slot's capacity.
\<close>

theorem C4_confirmed_within_capacity:
  assumes "slots_ok (db e)"
  shows "slots_ok (db (run_ops ops e))
         \<and> (\<forall>s \<in> set (map snd (time_slots (db (run_ops ops e)))).
               int (length (tokens s)) \<le> max_capacity s)
         \<and> (0 \<le> cap \<longrightarrow> slot_ok (TimeSlot_init sid t doc st en dt cap))"
proof -
  have a: "slots_ok (db (run_ops ops e))" using run_ops_slots_ok [OF assms] .
  then have b: "\<forall>s \<in> set (map snd (time_slots (db (run_ops ops e)))).
               int (length (tokens s)) \<le> max_capacity s"
    by (simp add: slots_ok_def slot_ok_def list_all_iff)
  show ?thesis using a b slot_ok_new by blast
qed

theorem C4_confirmed_within_capacity_witness:
  "slots_ok (db (clinic 1))
   \<and> slots_ok (db (run_ops demo_ops (clinic 1)))
   \<and> map_option (\<lambda>s. (tokens s, allocated_count s, max_capacity s))
        (get_time_slot (db (run_ops demo_ops (clinic 1))) ''SLOT1'')
      = Some ([''TKN3''], 1, 1)
   \<and> slot_ok (slot1 1)"
proof -
  have h: "slots_ok (db (clinic 1))" by code_simp
  have v: "map_option (\<lambda>s. (tokens s, allocated_count s, max_capacity s))
        (get_time_slot (db (run_ops demo_ops (clinic 1))) ''SLOT1'')
      = Some ([''TKN3''], 1, 1)" by code_simp
  show ?thesis
    using h v C4_confirmed_within_capacity [OF h, of demo_ops 1 "''SLOT1''" 0 "''DOC001''"
        "''09:00''" "''10:00''" "''2026-01-29''"]
    by (simp add: slot1_def)
qed

end
